theory Spec2Isabelle
  imports Complex_Main "HOL-Library.Word"
begin

section \<open>Numbers\<close>

text \<open>
  The program computes with C++ \<^verbatim>\<open>float\<close>.  The model keeps the shape of IEEE
  arithmetic and drops its rounding: a value is a real number, one of the two
  infinities, or NaN.  Arithmetic on real values is exact: a sum or product is neither
  rounded to 24 bits nor overflows nor underflows, as it does in the program.  The
  special values follow the IEEE rules (NaN is absorbing, \<open>\<infinity> - \<infinity>\<close>, \<open>0 \<sqdot> \<infinity>\<close>,
  \<open>0 / 0\<close> and \<open>\<infinity> / \<infinity>\<close> are NaN, every comparison with NaN is false).  There is one
  zero; every divisor of the program (\<open>mag\<close> in \<open>normalize\<close>, \<open>2a\<close> in
  \<open>intersect\<close>, the frame dimensions) is a square root or a sum of squares, a
  non-negative zero in IEEE arithmetic too, so \<open>x / 0\<close> takes the sign of \<open>x\<close>.

  What is proved over this model is therefore the structure of the program: which
  operations it applies, in which order, on which branch, and which formula of real
  arithmetic that sequence of operations is.  How far the rounded result of the program
  lies from the value of that formula is not expressed here, and nothing below is a
  statement about it.
\<close>

datatype fl = Fin real | PInf | NInf | NaN

instantiation fl :: "{plus, minus, uminus, times, inverse, ord}"
begin

fun plus_fl :: "fl \<Rightarrow> fl \<Rightarrow> fl" where
  "plus_fl (Fin a) (Fin b) = Fin (a + b)"
| "plus_fl NaN b = NaN"
| "plus_fl a NaN = NaN"
| "plus_fl PInf NInf = NaN"
| "plus_fl NInf PInf = NaN"
| "plus_fl PInf b = PInf"
| "plus_fl a PInf = PInf"
| "plus_fl NInf b = NInf"
| "plus_fl a NInf = NInf"

fun uminus_fl :: "fl \<Rightarrow> fl" where
  "uminus_fl (Fin a) = Fin (- a)"
| "uminus_fl PInf = NInf"
| "uminus_fl NInf = PInf"
| "uminus_fl NaN = NaN"

definition minus_fl :: "fl \<Rightarrow> fl \<Rightarrow> fl" where
  "minus_fl a b = a + (- b)"

fun times_fl :: "fl \<Rightarrow> fl \<Rightarrow> fl" where
  "times_fl (Fin a) (Fin b) = Fin (a * b)"
| "times_fl NaN b = NaN"
| "times_fl a NaN = NaN"
| "times_fl PInf PInf = PInf"
| "times_fl PInf NInf = NInf"
| "times_fl NInf PInf = NInf"
| "times_fl NInf NInf = PInf"
| "times_fl PInf (Fin b) = (if b = 0 then NaN else if 0 < b then PInf else NInf)"
| "times_fl NInf (Fin b) = (if b = 0 then NaN else if 0 < b then NInf else PInf)"
| "times_fl (Fin a) PInf = (if a = 0 then NaN else if 0 < a then PInf else NInf)"
| "times_fl (Fin a) NInf = (if a = 0 then NaN else if 0 < a then NInf else PInf)"

fun divide_fl :: "fl \<Rightarrow> fl \<Rightarrow> fl" where
  "divide_fl (Fin a) (Fin b) =
     (if b \<noteq> 0 then Fin (a / b)
      else if a = 0 then NaN else if 0 < a then PInf else NInf)"
| "divide_fl NaN b = NaN"
| "divide_fl a NaN = NaN"
| "divide_fl (Fin a) PInf = Fin 0"
| "divide_fl (Fin a) NInf = Fin 0"
| "divide_fl PInf (Fin b) = (if 0 \<le> b then PInf else NInf)"
| "divide_fl NInf (Fin b) = (if 0 \<le> b then NInf else PInf)"
| "divide_fl PInf PInf = NaN"
| "divide_fl PInf NInf = NaN"
| "divide_fl NInf PInf = NaN"
| "divide_fl NInf NInf = NaN"

definition inverse_fl :: "fl \<Rightarrow> fl" where
  "inverse_fl a = divide (Fin 1) a"

fun less_fl :: "fl \<Rightarrow> fl \<Rightarrow> bool" where
  "less_fl (Fin a) (Fin b) = (a < b)"
| "less_fl NaN b = False"
| "less_fl a NaN = False"
| "less_fl a NInf = False"
| "less_fl PInf b = False"
| "less_fl NInf b = True"
| "less_fl a PInf = True"

fun less_eq_fl :: "fl \<Rightarrow> fl \<Rightarrow> bool" where
  "less_eq_fl (Fin a) (Fin b) = (a \<le> b)"
| "less_eq_fl NaN b = False"
| "less_eq_fl a NaN = False"
| "less_eq_fl NInf b = True"
| "less_eq_fl a PInf = True"
| "less_eq_fl a NInf = False"
| "less_eq_fl PInf b = False"

instance ..

end

text \<open>\<^verbatim>\<open>std::sqrt\<close>: NaN on a negative argument.\<close>

fun std_sqrt :: "fl \<Rightarrow> fl" where
  "std_sqrt (Fin a) = (if a < 0 then NaN else Fin (sqrt a))"
| "std_sqrt PInf = PInf"
| "std_sqrt NInf = NaN"
| "std_sqrt NaN = NaN"

text \<open>
  \<^verbatim>\<open>std::max(a, b)\<close> is \<^verbatim>\<open>(a < b) ? b : a\<close> and \<^verbatim>\<open>std::min(a, b)\<close> is
  \<^verbatim>\<open>(b < a) ? b : a\<close>: with a NaN first argument both return the NaN.
\<close>

definition std_max :: "fl \<Rightarrow> fl \<Rightarrow> fl" where
  "std_max a b = (if a < b then b else a)"

definition std_min :: "fl \<Rightarrow> fl \<Rightarrow> fl" where
  "std_min a b = (if b < a then b else a)"

text \<open>Conversion of an \<^verbatim>\<open>int\<close> to \<^verbatim>\<open>float\<close> (exact in the model).\<close>

definition float_of_int :: "int \<Rightarrow> fl" where
  "float_of_int i = Fin (of_int i)"

section \<open>Vec3, Ray, Sphere\<close>

text \<open>
  \<^verbatim>\<open>struct Vec3 { float x, y, z; }\<close>.  The operators \<^verbatim>\<open>+\<close>, \<^verbatim>\<open>-\<close> and the
  component-wise \<^verbatim>\<open>*\<close> keep their symbols; \<^verbatim>\<open>operator * (float s)\<close> is \<open>scale\<close>
  and \<^verbatim>\<open>operator / (float s)\<close> is \<open>vdiv\<close>.
\<close>

datatype Vec3 = Vec3 fl fl fl

abbreviation vec :: "real \<Rightarrow> real \<Rightarrow> real \<Rightarrow> Vec3" where
  "vec a b c \<equiv> Vec3 (Fin a) (Fin b) (Fin c)"

instantiation Vec3 :: "{plus, minus, times}"
begin

fun plus_Vec3 :: "Vec3 \<Rightarrow> Vec3 \<Rightarrow> Vec3" where
  "plus_Vec3 (Vec3 x y z) (Vec3 vx vy vz) = Vec3 (x + vx) (y + vy) (z + vz)"

fun minus_Vec3 :: "Vec3 \<Rightarrow> Vec3 \<Rightarrow> Vec3" where
  "minus_Vec3 (Vec3 x y z) (Vec3 vx vy vz) = Vec3 (x - vx) (y - vy) (z - vz)"

fun times_Vec3 :: "Vec3 \<Rightarrow> Vec3 \<Rightarrow> Vec3" where
  "times_Vec3 (Vec3 x y z) (Vec3 vx vy vz) = Vec3 (x * vx) (y * vy) (z * vz)"

instance ..

end

fun scale :: "Vec3 \<Rightarrow> fl \<Rightarrow> Vec3" where
  "scale (Vec3 x y z) s = Vec3 (x * s) (y * s) (z * s)"

fun vdiv :: "Vec3 \<Rightarrow> fl \<Rightarrow> Vec3" where
  "vdiv (Vec3 x y z) s = Vec3 (x / s) (y / s) (z / s)"

fun normalize_Vec3 :: "Vec3 \<Rightarrow> Vec3" where
  "normalize_Vec3 (Vec3 x y z) =
     (let mag = std_sqrt (x * x + y * y + z * z)
      in Vec3 (x / mag) (y / mag) (z / mag))"

fun dot :: "Vec3 \<Rightarrow> Vec3 \<Rightarrow> fl" where
  "dot (Vec3 x y z) (Vec3 vx vy vz) = x * vx + y * vy + z * vz"

datatype Ray = Ray (origin: Vec3) (direction: Vec3)

datatype Sphere = Sphere (center: Vec3) (radius: fl) (color: Vec3)

text \<open>
  \<^verbatim>\<open>bool Sphere::intersect(const Ray& ray, float& t)\<close>.  The result \<open>Some t\<close> is
  \<^verbatim>\<open>true\<close> with the parameter written to \<^verbatim>\<open>t\<close>; \<open>None\<close> is \<^verbatim>\<open>false\<close> (both
  callers read \<^verbatim>\<open>t\<close> only after \<^verbatim>\<open>true\<close>).
\<close>

definition intersect :: "Sphere \<Rightarrow> Ray \<Rightarrow> fl option" where
  "intersect s ray =
     (let oc = origin ray - center s;
          a = dot (direction ray) (direction ray);
          b = Fin 2 * dot oc (direction ray);
          c = dot oc oc - radius s * radius s;
          discriminant = b * b - Fin 4 * a * c
      in if discriminant < Fin 0 then None
         else
           let t0 = (- b - std_sqrt discriminant) / (Fin 2 * a);
               t1 = (- b + std_sqrt discriminant) / (Fin 2 * a);
               t = (if t0 < t1 then t0 else t1);
               t = (if t < Fin 0 then (if t1 < t0 then t0 else t1) else t)
           in if Fin 0 \<le> t then Some t else None)"

section \<open>trace\<close>

text \<open>
  The first loop of \<^verbatim>\<open>trace\<close>: the state is \<^verbatim>\<open>nearest\<close> and the pointer
  \<^verbatim>\<open>hitSphere\<close>, here the index of the sphere in the vector (\<open>None\<close> is
  \<^verbatim>\<open>nullptr\<close>); \<open>i\<close> is the index of the sphere the loop stands at.
\<close>

fun nearest_loop :: "Ray \<Rightarrow> Sphere list \<Rightarrow> nat \<Rightarrow> fl \<times> nat option \<Rightarrow> fl \<times> nat option" where
  "nearest_loop ray [] i (nearest, hitSphere) = (nearest, hitSphere)"
| "nearest_loop ray (sphere # rest) i (nearest, hitSphere) =
     (case intersect sphere ray of
        Some t \<Rightarrow>
          if t < nearest then nearest_loop ray rest (i + 1) (t, Some i)
          else nearest_loop ray rest (i + 1) (nearest, hitSphere)
      | None \<Rightarrow> nearest_loop ray rest (i + 1) (nearest, hitSphere))"

text \<open>
  The second loop: \<open>True\<close> as soon as a sphere other than the one \<^verbatim>\<open>hitSphere\<close>
  points to (compared by address, here by index) intersects the shadow ray.
\<close>

fun shadow_loop :: "Ray \<Rightarrow> Sphere list \<Rightarrow> nat \<Rightarrow> nat \<Rightarrow> bool" where
  "shadow_loop shadowRay [] i hitSphere = False"
| "shadow_loop shadowRay (sphere # rest) i hitSphere =
     (if i \<noteq> hitSphere \<and> intersect sphere shadowRay \<noteq> None then True
      else shadow_loop shadowRay rest (i + 1) hitSphere)"

function trace :: "Ray \<Rightarrow> Sphere list \<Rightarrow> Vec3 \<Rightarrow> int \<Rightarrow> Vec3" where
  "trace ray spheres lightPos depth =
     (if depth > 2 then Vec3 (Fin 0.1) (Fin 0.1) (Fin 0.1)
      else
        case nearest_loop ray spheres 0 (Fin 1000000000, None) of
          (nearest, Some h) \<Rightarrow>
            let hitSphere = spheres ! h;
                hitPoint = origin ray + scale (direction ray) nearest;
                normal = normalize_Vec3 (hitPoint - center hitSphere);
                lightDir = normalize_Vec3 (lightPos - hitPoint);
                diff = std_max (dot normal lightDir) (Fin 0);
                shadowRay = Ray (hitPoint + scale normal (Fin 0.001)) lightDir;
                inShadow = shadow_loop shadowRay spheres 0 h;
                baseColor = scale (color hitSphere) diff;
                baseColor = (if inShadow then scale baseColor (Fin 0.2) else baseColor);
                reflectDir = direction ray - scale (scale normal (Fin 2)) (dot (direction ray) normal);
                reflectDir = normalize_Vec3 reflectDir;
                reflectRay = Ray (hitPoint + scale normal (Fin 0.001)) reflectDir;
                reflectedColor = trace reflectRay spheres lightPos (depth + 1);
                reflectivity = Fin 0.5;
                finalColor = scale baseColor (Fin 1 - reflectivity) + scale reflectedColor reflectivity
            in finalColor
        | (nearest, None) \<Rightarrow> Vec3 (Fin 0.1) (Fin 0.1) (Fin 0.1))"
  by pat_completeness auto
termination
  by (relation "measure (\<lambda>(ray, spheres, lightPos, depth). nat (3 - depth))") auto

declare trace.simps [simp del]

section \<open>The frame loop of main\<close>

text \<open>
  \<^verbatim>\<open>(Uint8) f\<close> on a \<^verbatim>\<open>float\<close>: the value is truncated towards zero; the conversion
  is undefined (\<open>None\<close>) when the truncated value is not in \<open>0..255\<close>, and on NaN and
  the infinities.
\<close>

type_synonym Uint8 = "8 word"

definition to_Uint8 :: "fl \<Rightarrow> Uint8 option" where
  "to_Uint8 f =
     (case f of
        Fin r \<Rightarrow>
          if - 1 < r \<and> r < 256 then Some (word_of_int (if 0 \<le> r then \<lfloor>r\<rfloor> else \<lceil>r\<rceil>))
          else None
      | _ \<Rightarrow> None)"

text \<open>
  The pixel sink.  SDL is outside the repository; the renderer is the state its three
  calls act on: the draw colour and the colour of every point of the target.
  \<^verbatim>\<open>SDL_SetRenderDrawColor\<close> stores the draw colour, \<^verbatim>\<open>SDL_RenderClear\<close> fills the
  target with it and \<^verbatim>\<open>SDL_RenderDrawPoint\<close> writes it to one point.
\<close>

type_synonym rgba = "Uint8 \<times> Uint8 \<times> Uint8 \<times> Uint8"

record SDL_Renderer =
  draw_color :: rgba
  target :: "int \<times> int \<Rightarrow> rgba"

definition SDL_SetRenderDrawColor :: "SDL_Renderer \<Rightarrow> Uint8 \<Rightarrow> Uint8 \<Rightarrow> Uint8 \<Rightarrow> Uint8 \<Rightarrow> SDL_Renderer" where
  "SDL_SetRenderDrawColor renderer r g b a = renderer\<lparr>draw_color := (r, g, b, a)\<rparr>"

definition SDL_RenderClear :: "SDL_Renderer \<Rightarrow> SDL_Renderer" where
  "SDL_RenderClear renderer = renderer\<lparr>target := (\<lambda>p. draw_color renderer)\<rparr>"

definition SDL_RenderDrawPoint :: "SDL_Renderer \<Rightarrow> int \<Rightarrow> int \<Rightarrow> SDL_Renderer" where
  "SDL_RenderDrawPoint renderer x y = renderer\<lparr>target := (target renderer)((x, y) := draw_color renderer)\<rparr>"

text \<open>
  The body of the inner loop, in two parts: the camera ray of pixel \<open>(x, y)\<close> and the
  colour handed to \<^verbatim>\<open>SDL_SetRenderDrawColor\<close>.  \<^verbatim>\<open>width\<close> and \<^verbatim>\<open>height\<close> are
  the constants 800 and 600 of \<^verbatim>\<open>main\<close>, here parameters.
\<close>

definition camera_ray :: "int \<Rightarrow> int \<Rightarrow> int \<Rightarrow> int \<Rightarrow> Ray" where
  "camera_ray width height x y =
     (let u = (Fin 2 * (float_of_int x + Fin 0.5) / float_of_int width - Fin 1)
                * (float_of_int width / float_of_int height);
          v = Fin 1 - Fin 2 * (float_of_int y + Fin 0.5) / float_of_int height
      in Ray (Vec3 (Fin 0) (Fin 0) (Fin 0)) (normalize_Vec3 (Vec3 u v (Fin (- 1)))))"

definition pixel_color :: "int \<Rightarrow> int \<Rightarrow> Sphere list \<Rightarrow> Vec3 \<Rightarrow> int \<Rightarrow> int \<Rightarrow> (Uint8 \<times> Uint8 \<times> Uint8) option" where
  "pixel_color width height spheres lightPos x y =
     (case trace (camera_ray width height x y) spheres lightPos 0 of
        Vec3 cx cy cz \<Rightarrow>
          (case (to_Uint8 (std_min cx (Fin 1) * Fin 255),
                 to_Uint8 (std_min cy (Fin 1) * Fin 255),
                 to_Uint8 (std_min cz (Fin 1) * Fin 255)) of
             (Some r, Some g, Some b) \<Rightarrow> Some (r, g, b)
           | _ \<Rightarrow> None))"

function row_loop :: "int \<Rightarrow> int \<Rightarrow> Sphere list \<Rightarrow> Vec3 \<Rightarrow> int \<Rightarrow> int \<Rightarrow> SDL_Renderer \<Rightarrow> SDL_Renderer option" where
  "row_loop width height spheres lightPos y x renderer =
     (if x < width then
        (case pixel_color width height spheres lightPos x y of
           Some (r, g, b) \<Rightarrow>
             row_loop width height spheres lightPos y (x + 1)
               (SDL_RenderDrawPoint (SDL_SetRenderDrawColor renderer r g b 255) x y)
         | None \<Rightarrow> None)
      else Some renderer)"
  by pat_completeness auto
termination
  by (relation "measure (\<lambda>(width, height, spheres, lightPos, y, x, renderer). nat (width - x))") auto

function frame_loop :: "int \<Rightarrow> int \<Rightarrow> Sphere list \<Rightarrow> Vec3 \<Rightarrow> int \<Rightarrow> SDL_Renderer \<Rightarrow> SDL_Renderer option" where
  "frame_loop width height spheres lightPos y renderer =
     (if y < height then
        (case row_loop width height spheres lightPos y 0 renderer of
           Some renderer' \<Rightarrow> frame_loop width height spheres lightPos (y + 1) renderer'
         | None \<Rightarrow> None)
      else Some renderer)"
  by pat_completeness auto
termination
  by (relation "measure (\<lambda>(width, height, spheres, lightPos, y, renderer). nat (height - y))") auto

declare row_loop.simps [simp del] frame_loop.simps [simp del]

text \<open>One pass of the \<^verbatim>\<open>while (running)\<close> loop, from the clear to the last pixel.\<close>

definition render_frame :: "int \<Rightarrow> int \<Rightarrow> Sphere list \<Rightarrow> Vec3 \<Rightarrow> SDL_Renderer \<Rightarrow> SDL_Renderer option" where
  "render_frame width height spheres lightPos renderer =
     frame_loop width height spheres lightPos 0
       (SDL_RenderClear (SDL_SetRenderDrawColor renderer 25 25 25 255))"

section \<open>Properties\<close>

subsection \<open>The order on values and the nearest-hit loop\<close>

lemma fl_less_trans: "(a::fl) < b \<Longrightarrow> b < c \<Longrightarrow> a < c"
  by (cases a; cases b; cases c; simp)

lemma fl_not_less_mono: "\<not> (t::fl) < n \<Longrightarrow> n' < n \<Longrightarrow> \<not> t < n'"
  by (cases t; cases n; cases n'; simp)

lemma fl_less_le_not: "(n::fl) < t \<Longrightarrow> \<not> t < n"
  by (cases t; cases n; simp)

lemma fl_less_irrefl: "\<not> (t::fl) < t"
  by (cases t; simp)

lemma intersect_Some_nonneg: "intersect s ray = Some t \<Longrightarrow> Fin 0 \<le> t"
  by (auto simp: intersect_def Let_def split: if_splits)

lemma fl_less_of_not_less: "\<not> (t::fl) < n0 \<Longrightarrow> n < n0 \<Longrightarrow> Fin 0 \<le> t \<Longrightarrow> n < t"
  by (cases t; cases n0; cases n; simp)

lemma nearest_loop_mono:
  "nearest_loop ray ss i (n0, h0) = (n, h) \<Longrightarrow> (n = n0 \<and> h = h0) \<or> n < n0"
proof (induction ss arbitrary: i n0 h0)
  case Nil
  then show ?case by simp
next
  case (Cons s ss)
  show ?case
  proof (cases "intersect s ray")
    case None
    with Cons.prems have "nearest_loop ray ss (i + 1) (n0, h0) = (n, h)" by simp
    from Cons.IH [OF this] show ?thesis .
  next
    case (Some t0)
    show ?thesis
    proof (cases "t0 < n0")
      case True
      with Some Cons.prems have "nearest_loop ray ss (i + 1) (t0, Some i) = (n, h)" by simp
      from Cons.IH [OF this] True show ?thesis
        by (auto dest: fl_less_trans)
    next
      case False
      with Some Cons.prems have "nearest_loop ray ss (i + 1) (n0, h0) = (n, h)" by simp
      from Cons.IH [OF this] show ?thesis .
    qed
  qed
qed

lemma nearest_loop_lower:
  "nearest_loop ray ss i (n0, h0) = (n, h) \<Longrightarrow> s \<in> set ss \<Longrightarrow> intersect s ray = Some t \<Longrightarrow> \<not> t < n"
proof (induction ss arbitrary: i n0 h0)
  case Nil
  then show ?case by simp
next
  case (Cons s' ss)
  show ?case
  proof (cases "intersect s' ray")
    case None
    with Cons.prems have 1: "nearest_loop ray ss (i + 1) (n0, h0) = (n, h)" by simp
    from None Cons.prems(2,3) have "s \<in> set ss" by auto
    from Cons.IH [OF 1 this Cons.prems(3)] show ?thesis .
  next
    case (Some t0)
    show ?thesis
    proof (cases "t0 < n0")
      case True
      with Some Cons.prems have 1: "nearest_loop ray ss (i + 1) (t0, Some i) = (n, h)" by simp
      show ?thesis
      proof (cases "s = s'")
        case True
        with Some Cons.prems(3) have "t = t0" by simp
        from nearest_loop_mono [OF 1] show ?thesis
          using \<open>t = t0\<close> by (auto simp: fl_less_irrefl dest: fl_less_le_not)
      next
        case False
        with Cons.prems(2) have "s \<in> set ss" by simp
        from Cons.IH [OF 1 this Cons.prems(3)] show ?thesis .
      qed
    next
      case False
      with Some Cons.prems have 1: "nearest_loop ray ss (i + 1) (n0, h0) = (n, h)" by simp
      show ?thesis
      proof (cases "s = s'")
        case True
        with Some Cons.prems(3) have "t = t0" by simp
        from nearest_loop_mono [OF 1] show ?thesis
          using \<open>t = t0\<close> False by (auto dest: fl_not_less_mono)
      next
        case False
        with Cons.prems(2) have "s \<in> set ss" by simp
        from Cons.IH [OF 1 this Cons.prems(3)] show ?thesis .
      qed
    qed
  qed
qed

lemma nearest_loop_hit:
  "nearest_loop ray ss i (n0, h0) = (n, h) \<Longrightarrow>
     (n = n0 \<and> h = h0) \<or>
     (\<exists>k<length ss. h = Some (i + k) \<and> intersect (ss ! k) ray = Some n \<and> n < n0 \<and>
        (\<forall>j<k. \<forall>t. intersect (ss ! j) ray = Some t \<longrightarrow> n < t))"
proof (induction ss arbitrary: i n0 h0)
  case Nil
  then show ?case by simp
next
  case (Cons s ss)
  have step: "\<exists>k<length (s # ss). h = Some (i + k) \<and> intersect ((s # ss) ! k) ray = Some n \<and> n < n0 \<and>
        (\<forall>j<k. \<forall>t. intersect ((s # ss) ! j) ray = Some t \<longrightarrow> n < t)"
    if k: "k < length ss" "h = Some (i + 1 + k)" "intersect (ss ! k) ray = Some n" "n < n0"
      and b: "\<forall>j<k. \<forall>t. intersect (ss ! j) ray = Some t \<longrightarrow> n < t"
      and s: "\<And>t. intersect s ray = Some t \<Longrightarrow> n < t" for k
  proof -
    have 1: "\<forall>j<Suc k. \<forall>t. intersect ((s # ss) ! j) ray = Some t \<longrightarrow> n < t"
    proof (intro allI impI)
      fix j t assume "j < Suc k" "intersect ((s # ss) ! j) ray = Some t"
      then show "n < t" using b s by (cases j) auto
    qed
    have 2: "Suc k < length (s # ss)" using k(1) by simp
    have 3: "h = Some (i + Suc k)" using k(2) by simp
    have 4: "intersect ((s # ss) ! Suc k) ray = Some n" using k(3) by simp
    show ?thesis
      by (rule exI [of _ "Suc k"]) (intro conjI 1 2 3 4 k(4))
  qed
  show ?case
  proof (cases "intersect s ray")
    case None
    with Cons.prems have "nearest_loop ray ss (i + 1) (n0, h0) = (n, h)" by simp
    from Cons.IH [OF this] show ?thesis
    proof (elim disjE exE conjE)
      assume "n = n0" "h = h0" then show ?thesis by simp
    next
      fix k assume "k < length ss" "h = Some (i + 1 + k)" "intersect (ss ! k) ray = Some n" "n < n0"
        "\<forall>j<k. \<forall>t. intersect (ss ! j) ray = Some t \<longrightarrow> n < t"
      then have "\<exists>k<length (s # ss). h = Some (i + k) \<and> intersect ((s # ss) ! k) ray = Some n \<and> n < n0 \<and>
        (\<forall>j<k. \<forall>t. intersect ((s # ss) ! j) ray = Some t \<longrightarrow> n < t)"
        by (rule step) (simp add: None)
      then show ?thesis ..
    qed
  next
    case (Some t0)
    show ?thesis
    proof (cases "t0 < n0")
      case True
      with Some Cons.prems have "nearest_loop ray ss (i + 1) (t0, Some i) = (n, h)" by simp
      from Cons.IH [OF this] show ?thesis
      proof (elim disjE exE conjE)
        assume "n = t0" "h = Some i"
        then have "0 < length (s # ss) \<and> h = Some (i + 0) \<and> intersect ((s # ss) ! 0) ray = Some n \<and> n < n0 \<and>
          (\<forall>j<0::nat. \<forall>t. intersect ((s # ss) ! j) ray = Some t \<longrightarrow> n < t)"
          using Some True by simp
        then have "\<exists>k<length (s # ss). h = Some (i + k) \<and> intersect ((s # ss) ! k) ray = Some n \<and> n < n0 \<and>
          (\<forall>j<k. \<forall>t. intersect ((s # ss) ! j) ray = Some t \<longrightarrow> n < t)"
          by (rule exI [of _ 0])
        then show ?thesis ..
      next
        fix k assume k: "k < length ss" "h = Some (i + 1 + k)" "intersect (ss ! k) ray = Some n" "n < t0"
          "\<forall>j<k. \<forall>t. intersect (ss ! j) ray = Some t \<longrightarrow> n < t"
        have "n < n0" using k(4) True by (rule fl_less_trans)
        with k(1-3) have "\<exists>k<length (s # ss). h = Some (i + k) \<and> intersect ((s # ss) ! k) ray = Some n \<and> n < n0 \<and>
          (\<forall>j<k. \<forall>t. intersect ((s # ss) ! j) ray = Some t \<longrightarrow> n < t)"
          using k(5) by (rule step) (simp add: Some k(4))
        then show ?thesis ..
      qed
    next
      case False
      with Some Cons.prems have "nearest_loop ray ss (i + 1) (n0, h0) = (n, h)" by simp
      from Cons.IH [OF this] show ?thesis
      proof (elim disjE exE conjE)
        assume "n = n0" "h = h0" then show ?thesis by simp
      next
        fix k assume k: "k < length ss" "h = Some (i + 1 + k)" "intersect (ss ! k) ray = Some n" "n < n0"
          "\<forall>j<k. \<forall>t. intersect (ss ! j) ray = Some t \<longrightarrow> n < t"
        have "n < t0"
          using False k(4) Some by (auto intro: fl_less_of_not_less intersect_Some_nonneg)
        from k have "\<exists>k<length (s # ss). h = Some (i + k) \<and> intersect ((s # ss) ! k) ray = Some n \<and> n < n0 \<and>
          (\<forall>j<k. \<forall>t. intersect ((s # ss) ! j) ray = Some t \<longrightarrow> n < t)"
          by (rule step) (simp add: Some \<open>n < t0\<close>)
        then show ?thesis ..
      qed
    qed
  qed
qed

subsection \<open>intersect on real inputs\<close>

lemma sum_squares3_eq_0: "(x::real) * x + y * y + z * z = 0 \<longleftrightarrow> x = 0 \<and> y = 0 \<and> z = 0"
proof
  assume h: "x * x + y * y + z * z = 0"
  have "0 \<le> x * x" "0 \<le> y * y" "0 \<le> z * z" by simp_all
  with h have "x * x = 0" "y * y = 0" "z * z = 0" by linarith+
  then show "x = 0 \<and> y = 0 \<and> z = 0" by simp
qed simp

lemma select_root_Fin:
  "(let t0' = Fin t0; t1' = Fin t1;
        t = (if t0' < t1' then t0' else t1');
        t = (if t < Fin 0 then (if t1' < t0' then t0' else t1') else t)
    in if Fin 0 \<le> t then Some t else None) =
   (if 0 \<le> min t0 t1 then Some (Fin (min t0 t1))
    else if 0 \<le> max t0 t1 then Some (Fin (max t0 t1))
    else None)"
  by (simp add: Let_def min_def max_def)

lemma intersect_Fin:
  "intersect (Sphere (Vec3 (Fin cx) (Fin cy) (Fin cz)) (Fin r) col)
             (Ray (Vec3 (Fin ox) (Fin oy) (Fin oz)) (Vec3 (Fin dx) (Fin dy) (Fin dz))) =
   (let a = dx * dx + dy * dy + dz * dz;
        b = 2 * ((ox - cx) * dx + (oy - cy) * dy + (oz - cz) * dz);
        c = (ox - cx) * (ox - cx) + (oy - cy) * (oy - cy) + (oz - cz) * (oz - cz) - r * r;
        disc = b * b - 4 * a * c;
        t0 = (- b - sqrt disc) / (2 * a);
        t1 = (- b + sqrt disc) / (2 * a)
    in if disc < 0 then None
       else if a = 0 then None
       else if 0 \<le> min t0 t1 then Some (Fin (min t0 t1))
       else if 0 \<le> max t0 t1 then Some (Fin (max t0 t1))
       else None)"
proof -
  define a where "a = dx * dx + dy * dy + dz * dz"
  define b where "b = 2 * ((ox - cx) * dx + (oy - cy) * dy + (oz - cz) * dz)"
  define c where "c = (ox - cx) * (ox - cx) + (oy - cy) * (oy - cy) + (oz - cz) * (oz - cz) - r * r"
  define disc where "disc = b * b - 4 * a * c"
  define t0 where "t0 = (- b - sqrt disc) / (2 * a)"
  define t1 where "t1 = (- b + sqrt disc) / (2 * a)"
  define s where "s = Sphere (Vec3 (Fin cx) (Fin cy) (Fin cz)) (Fin r) col"
  define ray where "ray = Ray (Vec3 (Fin ox) (Fin oy) (Fin oz)) (Vec3 (Fin dx) (Fin dy) (Fin dz))"
  have oc: "origin ray - center s = Vec3 (Fin (ox - cx)) (Fin (oy - cy)) (Fin (oz - cz))"
    by (simp add: s_def ray_def minus_fl_def)
  have fa: "dot (direction ray) (direction ray) = Fin a"
    by (simp add: ray_def a_def)
  have fb: "Fin 2 * dot (origin ray - center s) (direction ray) = Fin b"
    by (simp add: oc) (simp add: ray_def b_def)
  have fc: "dot (origin ray - center s) (origin ray - center s) - radius s * radius s = Fin c"
    by (simp add: oc) (simp add: s_def c_def minus_fl_def)
  have fd: "Fin b * Fin b - Fin 4 * Fin a * Fin c = Fin disc"
    by (simp add: disc_def minus_fl_def)
  have unfold: "intersect s ray =
     (if Fin disc < Fin 0 then None
      else
        let t0 = (- Fin b - std_sqrt (Fin disc)) / (Fin 2 * Fin a);
            t1 = (- Fin b + std_sqrt (Fin disc)) / (Fin 2 * Fin a);
            t = (if t0 < t1 then t0 else t1);
            t = (if t < Fin 0 then (if t1 < t0 then t0 else t1) else t)
        in if Fin 0 \<le> t then Some t else None)"
    unfolding intersect_def Let_def fa fb fc fd ..
  have res: "intersect s ray =
     (if disc < 0 then None
       else if a = 0 then None
       else if 0 \<le> min t0 t1 then Some (Fin (min t0 t1))
       else if 0 \<le> max t0 t1 then Some (Fin (max t0 t1))
       else None)"
  proof (cases "disc < 0")
    case True
    then show ?thesis by (simp add: unfold)
  next
    case nonneg: False
    show ?thesis
    proof (cases "a = 0")
      case True
      then have "dx = 0" "dy = 0" "dz = 0" by (simp_all add: a_def sum_squares3_eq_0)
      then have "b = 0" by (simp add: b_def)
      with True have "disc = 0" by (simp add: disc_def)
      show ?thesis
        by (simp add: unfold \<open>a = 0\<close> \<open>b = 0\<close> \<open>disc = 0\<close> Let_def minus_fl_def)
    next
      case False
      have 0: "(- Fin b - std_sqrt (Fin disc)) / (Fin 2 * Fin a) = Fin t0"
        using False nonneg by (simp add: t0_def minus_fl_def)
      have 1: "(- Fin b + std_sqrt (Fin disc)) / (Fin 2 * Fin a) = Fin t1"
        using False nonneg by (simp add: t1_def)
      from nonneg have nd: "\<not> Fin disc < Fin 0" by simp
      have "intersect s ray =
        (let t0 = (- Fin b - std_sqrt (Fin disc)) / (Fin 2 * Fin a);
            t1 = (- Fin b + std_sqrt (Fin disc)) / (Fin 2 * Fin a);
            t = (if t0 < t1 then t0 else t1);
            t = (if t < Fin 0 then (if t1 < t0 then t0 else t1) else t)
        in if Fin 0 \<le> t then Some t else None)"
        unfolding unfold by (rule if_not_P [OF nd])
      also have "\<dots> = (if 0 \<le> min t0 t1 then Some (Fin (min t0 t1))
         else if 0 \<le> max t0 t1 then Some (Fin (max t0 t1)) else None)"
        unfolding 0 1 by (rule select_root_Fin)
      finally show ?thesis
        using False nonneg by simp
    qed
  qed
  show ?thesis
    unfolding Let_def
    using res [unfolded s_def ray_def t0_def t1_def disc_def c_def b_def a_def] .
qed

subsection \<open>A scene to evaluate on\<close>

lemma sqrt_4: "sqrt 4 = 2"
  by (rule real_sqrt_unique) simp_all

lemma sqrt_841: "sqrt 841 = 29"
  by (rule real_sqrt_unique) simp_all

lemma ex_intersect_1:
  "intersect (Sphere (vec 0 0 (-10)) (Fin 1) (vec 1 0 0)) (Ray (vec 0 0 0) (vec 0 0 (-1))) = Some (Fin 9)"
  by (simp add: intersect_Fin sqrt_4)

lemma ex_intersect_2:
  "intersect (Sphere (vec 0 0 10) (Fin 1) (vec 0 1 0)) (Ray (vec 0 0 0) (vec 0 0 (-1))) = None"
  by (simp add: intersect_Fin sqrt_4)

lemma ex_nearest:
  "nearest_loop (Ray (vec 0 0 0) (vec 0 0 (-1)))
     [Sphere (vec 0 0 (-10)) (Fin 1) (vec 1 0 0), Sphere (vec 0 0 10) (Fin 1) (vec 0 1 0)] 0
     (Fin 1000000000, None) = (Fin 9, Some 0)"
  by (simp add: ex_intersect_1 ex_intersect_2)

subsection \<open>The recursive calls of trace\<close>

lemma trace_rel_depth:
  "trace_rel (ray', spheres', lightPos', depth') (ray, spheres, lightPos, depth) \<Longrightarrow>
     depth' = depth + 1 \<and> \<not> 2 < depth \<and> spheres' = spheres \<and> lightPos' = lightPos"
  by (erule trace_rel.cases) simp

lemma trace_rel_chain:
  "(trace_rel ^^ n) call (ray, spheres, lightPos, depth) \<Longrightarrow>
     snd (snd (snd call)) = depth + int n \<and> (0 < n \<longrightarrow> depth + int n \<le> 3)"
proof (induction n arbitrary: call)
  case 0
  then show ?case by auto
next
  case (Suc n)
  from Suc.prems obtain mid where mid: "(trace_rel ^^ n) mid (ray, spheres, lightPos, depth)"
    and step: "trace_rel call mid"
    by (metis relpowp_Suc_E2 relpowp_Suc_E relpowp_Suc_I2 relpowp_Suc_I)
  obtain r s l d where m: "mid = (r, s, l, d)" by (cases mid) auto
  obtain r' s' l' d' where c: "call = (r', s', l', d')" by (cases call) auto
  from Suc.IH [OF mid] m have d: "d = depth + int n" by simp
  from trace_rel_depth [OF step [unfolded m c]] have "d' = d + 1" "\<not> 2 < d" by simp_all
  with d c show ?case by simp
qed

subsection \<open>The shadow loop, hits and misses\<close>

lemma shadow_loop_iff:
  "shadow_loop shadowRay ss i h \<longleftrightarrow>
     (\<exists>k<length ss. i + k \<noteq> h \<and> intersect (ss ! k) shadowRay \<noteq> None)"
proof (induction ss arbitrary: i)
  case Nil
  show ?case by simp
next
  case (Cons s ss)
  have "(\<exists>k<length (s # ss). i + k \<noteq> h \<and> intersect ((s # ss) ! k) shadowRay \<noteq> None) \<longleftrightarrow>
        (i \<noteq> h \<and> intersect s shadowRay \<noteq> None) \<or>
        (\<exists>k<length ss. i + 1 + k \<noteq> h \<and> intersect (ss ! k) shadowRay \<noteq> None)"
    by (simp add: Ex_less_Suc2)
  then show ?case
    using Cons.IH [of "i + 1"] by auto
qed

lemma fl_le_of_not_less: "\<not> (t::fl) < n \<Longrightarrow> Fin 0 \<le> t \<Longrightarrow> n < m \<Longrightarrow> n \<le> t"
  by (cases t; cases n; cases m; simp)

lemma fl_le_of_not_less_Fin: "\<not> (t::fl) < Fin n \<Longrightarrow> Fin 0 \<le> t \<Longrightarrow> Fin n \<le> t"
  by (cases t; simp)

lemma nearest_loop_None:
  assumes "nearest_loop ray spheres 0 (Fin 1000000000, None) = (nearest, None)"
  shows "trace ray spheres lightPos depth = vec 0.1 0.1 0.1"
  by (subst trace.simps) (simp add: assms)

lemma trace_hit:
  assumes "\<not> 2 < depth"
    and "nearest_loop ray spheres 0 (Fin 1000000000, None) = (nearest, Some h)"
  shows "trace ray spheres lightPos depth =
     (let hitSphere = spheres ! h;
          hitPoint = origin ray + scale (direction ray) nearest;
          normal = normalize_Vec3 (hitPoint - center hitSphere);
          lightDir = normalize_Vec3 (lightPos - hitPoint);
          diff = std_max (dot normal lightDir) (Fin 0);
          shadowRay = Ray (hitPoint + scale normal (Fin 0.001)) lightDir;
          inShadow = shadow_loop shadowRay spheres 0 h;
          baseColor = scale (color hitSphere) diff;
          baseColor = (if inShadow then scale baseColor (Fin 0.2) else baseColor);
          reflectDir = direction ray - scale (scale normal (Fin 2)) (dot (direction ray) normal);
          reflectDir = normalize_Vec3 reflectDir;
          reflectRay = Ray (hitPoint + scale normal (Fin 0.001)) reflectDir;
          reflectedColor = trace reflectRay spheres lightPos (depth + 1);
          reflectivity = Fin 0.5;
          finalColor = scale baseColor (Fin 1 - reflectivity) + scale reflectedColor reflectivity
      in finalColor)"
  using assms by (subst trace.simps) simp

text \<open>
  C2 (as amended).  The first loop of \<open>trace\<close> scans every sphere of the scene.  When it
  ends with a sphere selected, that sphere reported a hit at \<open>nearest\<close>, \<open>nearest\<close> is
  below \<open>10\<^sup>9\<close>, no sphere of the scene reported a smaller parameter, and every sphere
  before the selected one reported a strictly larger one.  When it ends with no sphere
  selected, every reported parameter is at least \<open>10\<^sup>9\<close> and \<open>trace\<close> returns exactly
  \<open>(0.1, 0.1, 0.1)\<close>; in particular it does so when no sphere reports a hit.
\<close>

theorem nearest_hit_search:
  assumes "nearest_loop ray spheres 0 (Fin 1000000000, None) = (nearest, hitSphere)"
  shows "(case hitSphere of
            Some h \<Rightarrow>
              h < length spheres \<and> intersect (spheres ! h) ray = Some nearest \<and>
              Fin 0 \<le> nearest \<and> nearest < Fin 1000000000 \<and>
              (\<forall>j<length spheres. \<forall>t. intersect (spheres ! j) ray = Some t \<longrightarrow> nearest \<le> t) \<and>
              (\<forall>j<h. \<forall>t. intersect (spheres ! j) ray = Some t \<longrightarrow> nearest < t)
          | None \<Rightarrow>
              (\<forall>j<length spheres. \<forall>t. intersect (spheres ! j) ray = Some t \<longrightarrow> Fin 1000000000 \<le> t) \<and>
              trace ray spheres lightPos depth = vec 0.1 0.1 0.1) \<and>
         ((\<forall>j<length spheres. intersect (spheres ! j) ray = None) \<longrightarrow>
            trace ray spheres lightPos depth = vec 0.1 0.1 0.1)"
proof -
  have lower: "\<not> t < nearest" if "j < length spheres" "intersect (spheres ! j) ray = Some t" for j t
  proof -
    from that(1) have "spheres ! j \<in> set spheres" by (rule nth_mem)
    from nearest_loop_lower [OF assms this that(2)] show ?thesis .
  qed
  have hit: "h < length spheres \<and> intersect (spheres ! h) ray = Some nearest \<and>
             nearest < Fin 1000000000 \<and>
             (\<forall>j<h. \<forall>t. intersect (spheres ! j) ray = Some t \<longrightarrow> nearest < t)"
    if "hitSphere = Some h" for h
  proof -
    have "\<exists>k<length spheres. hitSphere = Some (0 + k) \<and> intersect (spheres ! k) ray = Some nearest \<and>
        nearest < Fin 1000000000 \<and> (\<forall>j<k. \<forall>t. intersect (spheres ! j) ray = Some t \<longrightarrow> nearest < t)"
      using nearest_loop_hit [OF assms] that by simp
    then obtain k where k: "k < length spheres \<and> hitSphere = Some (0 + k) \<and>
        intersect (spheres ! k) ray = Some nearest \<and>
        nearest < Fin 1000000000 \<and> (\<forall>j<k. \<forall>t. intersect (spheres ! j) ray = Some t \<longrightarrow> nearest < t)" ..
    with that have "k = h" by simp
    with k show ?thesis by simp
  qed
  have some: "h < length spheres \<and> intersect (spheres ! h) ray = Some nearest \<and>
              Fin 0 \<le> nearest \<and> nearest < Fin 1000000000 \<and>
              (\<forall>j<length spheres. \<forall>t. intersect (spheres ! j) ray = Some t \<longrightarrow> nearest \<le> t) \<and>
              (\<forall>j<h. \<forall>t. intersect (spheres ! j) ray = Some t \<longrightarrow> nearest < t)"
    if h: "hitSphere = Some h" for h
  proof -
    note H = hit [OF h]
    from H have i: "intersect (spheres ! h) ray = Some nearest" by simp
    from H have lt: "nearest < Fin 1000000000" by simp
    from i have n0: "Fin 0 \<le> nearest" by (rule intersect_Some_nonneg)
    have "nearest \<le> t" if "j < length spheres" "intersect (spheres ! j) ray = Some t" for j t
      using lower [OF that] intersect_Some_nonneg [OF that(2)] lt
      by (rule fl_le_of_not_less)
    then have "\<forall>j<length spheres. \<forall>t. intersect (spheres ! j) ray = Some t \<longrightarrow> nearest \<le> t"
      by simp
    with H n0 show ?thesis by simp
  qed
  have none: "(\<forall>j<length spheres. \<forall>t. intersect (spheres ! j) ray = Some t \<longrightarrow> Fin 1000000000 \<le> t) \<and>
              trace ray spheres lightPos depth = vec 0.1 0.1 0.1"
    if h: "hitSphere = None"
  proof -
    from nearest_loop_hit [OF assms] h have n: "nearest = Fin 1000000000" by simp
    have "Fin 1000000000 \<le> t" if "j < length spheres" "intersect (spheres ! j) ray = Some t" for j t
      using lower [OF that] intersect_Some_nonneg [OF that(2)] unfolding n
      by (rule fl_le_of_not_less_Fin)
    then have 1: "\<forall>j<length spheres. \<forall>t. intersect (spheres ! j) ray = Some t \<longrightarrow> Fin 1000000000 \<le> t"
      by simp
    from assms have "nearest_loop ray spheres 0 (Fin 1000000000, None) = (nearest, None)"
      by (simp only: h)
    then have "trace ray spheres lightPos depth = vec 0.1 0.1 0.1"
      by (rule nearest_loop_None)
    with 1 show ?thesis by simp
  qed
  have miss: "trace ray spheres lightPos depth = vec 0.1 0.1 0.1"
    if a: "\<forall>j<length spheres. intersect (spheres ! j) ray = None"
  proof (cases hitSphere)
    case None
    with none show ?thesis by simp
  next
    case (Some h)
    from hit [OF Some] have "h < length spheres" "intersect (spheres ! h) ray = Some nearest"
      by simp_all
    with a show ?thesis by simp
  qed
  show ?thesis
  proof (cases hitSphere)
    case None
    from none [OF None] miss show ?thesis unfolding None by simp
  next
    case (Some h)
    from some [OF Some] miss show ?thesis unfolding Some by simp
  qed
qed

subsection \<open>Nearest hit, root selection, depth cutoff, termination\<close>

lemma trace_beyond_depth: "2 < depth \<Longrightarrow> trace ray spheres lightPos depth = vec 0.1 0.1 0.1"
  by (subst trace.simps) simp

lemma trace_total: "trace_dom call"
proof (induction call rule: wf_induct_rule [OF wf_measure [of "\<lambda>(ray, spheres, lightPos, depth). nat (3 - depth)"]])
  case (1 call)
  obtain ray spheres lightPos depth where call: "call = (ray, spheres, lightPos, depth)"
    by (cases call) auto
  show ?case
  proof (rule accpI)
    fix inner
    assume rel: "trace_rel inner call"
    obtain ray' spheres' lightPos' depth' where inner: "inner = (ray', spheres', lightPos', depth')"
      by (cases inner) auto
    from trace_rel_depth [OF rel [unfolded inner call]]
    have "depth' = depth + 1" "\<not> 2 < depth" by simp_all
    then have "(inner, call) \<in> measure (\<lambda>(ray, spheres, lightPos, depth). nat (3 - depth))"
      by (simp add: inner call)
    then show "trace_dom inner" by (rule "1.IH")
  qed
qed

lemma ex_call:
  "trace_rel
     (Ray (vec 0 0 (- 8.999)) (vec 0 0 1),
      [Sphere (vec 0 0 (-10)) (Fin 1) (vec 1 0 0), Sphere (vec 0 0 10) (Fin 1) (vec 0 1 0)],
      vec 0 0 20, 1)
     (Ray (vec 0 0 0) (vec 0 0 (-1)),
      [Sphere (vec 0 0 (-10)) (Fin 1) (vec 1 0 0), Sphere (vec 0 0 10) (Fin 1) (vec 0 1 0)],
      vec 0 0 20, 0)"
  using trace_rel.intros [OF _ ex_nearest [symmetric] refl refl refl refl refl refl refl refl refl refl refl refl refl,
      of 0 "vec 0 0 20"]
  by (simp add: Let_def minus_fl_def sqrt_841)

text \<open>
  C2, counterexample.  The ray from the origin along \<open>-z\<close> hits the sphere of radius
  \<open>2\<^sup>3\<^sup>0\<close> centred at \<open>(0, 0, -2\<^sup>3\<^sup>1)\<close>: \<open>intersect\<close> reports the parameter
  \<open>2\<^sup>3\<^sup>0 = 1073741824\<close>.  It is not below the initial \<open>nearest = 10\<^sup>9\<close>, so the search
  selects no sphere and \<open>trace\<close> returns the background colour although a primitive is hit.
\<close>

lemma sqrt_2_62: "sqrt 4611686018427387904 = 2147483648"
  by (rule real_sqrt_unique) simp_all

lemma ex_far_intersect:
  "intersect (Sphere (vec 0 0 (- 2147483648)) (Fin 1073741824) (vec 1 0 0))
     (Ray (vec 0 0 0) (vec 0 0 (- 1))) = Some (Fin 1073741824)"
  by (simp add: intersect_Fin sqrt_2_62)

theorem nearest_hit_far_counterexample:
  "intersect (Sphere (vec 0 0 (- 2147483648)) (Fin 1073741824) (vec 1 0 0))
     (Ray (vec 0 0 0) (vec 0 0 (- 1))) = Some (Fin 1073741824) \<and>
   nearest_loop (Ray (vec 0 0 0) (vec 0 0 (- 1)))
     [Sphere (vec 0 0 (- 2147483648)) (Fin 1073741824) (vec 1 0 0)] 0 (Fin 1000000000, None)
     = (Fin 1000000000, None) \<and>
   trace (Ray (vec 0 0 0) (vec 0 0 (- 1)))
     [Sphere (vec 0 0 (- 2147483648)) (Fin 1073741824) (vec 1 0 0)] (vec 0 5 0) 0
     = vec 0.1 0.1 0.1"
proof -
  have 1: "nearest_loop (Ray (vec 0 0 0) (vec 0 0 (- 1)))
     [Sphere (vec 0 0 (- 2147483648)) (Fin 1073741824) (vec 1 0 0)] 0 (Fin 1000000000, None)
     = (Fin 1000000000, None)"
    by (simp add: ex_far_intersect)
  from ex_far_intersect 1 nearest_loop_None [OF 1] show ?thesis by simp
qed

theorem nearest_hit_search_witness:
  "nearest_loop (Ray (vec 0 0 0) (vec 0 0 (-1)))
     [Sphere (vec 0 0 (-10)) (Fin 1) (vec 1 0 0), Sphere (vec 0 0 10) (Fin 1) (vec 0 1 0)] 0
     (Fin 1000000000, None) = (Fin 9, Some 0) \<and>
   intersect ([Sphere (vec 0 0 (-10)) (Fin 1) (vec 1 0 0), Sphere (vec 0 0 10) (Fin 1) (vec 0 1 0)] ! 0)
     (Ray (vec 0 0 0) (vec 0 0 (-1))) = Some (Fin 9) \<and>
   Fin 9 < Fin 1000000000 \<and> Fin 9 \<le> Fin 9"
  using nearest_hit_search [OF ex_nearest, of "vec 0 0 20" 0] ex_nearest
  by simp

text \<open>
  C3.  For a sphere and a ray with real components, with \<open>a\<close>, \<open>b\<close>, \<open>c\<close> the
  coefficients of the quadratic: \<open>intersect\<close> reports no hit when the discriminant
  \<open>b\<^sup>2 - 4ac\<close> is negative; otherwise it takes the smaller of the two roots, the larger
  one if the smaller is negative, and reports that value exactly when it is not negative,
  no hit when both roots are negative.  (With a zero direction, \<open>a = 0\<close>, both roots
  are \<open>0 / 0\<close> and no comparison holds: no hit.)
\<close>

theorem intersect_selects_root:
  "intersect (Sphere (Vec3 (Fin cx) (Fin cy) (Fin cz)) (Fin r) col)
             (Ray (Vec3 (Fin ox) (Fin oy) (Fin oz)) (Vec3 (Fin dx) (Fin dy) (Fin dz))) =
   (let a = dx * dx + dy * dy + dz * dz;
        b = 2 * ((ox - cx) * dx + (oy - cy) * dy + (oz - cz) * dz);
        c = (ox - cx) * (ox - cx) + (oy - cy) * (oy - cy) + (oz - cz) * (oz - cz) - r * r;
        disc = b * b - 4 * a * c;
        t0 = (- b - sqrt disc) / (2 * a);
        t1 = (- b + sqrt disc) / (2 * a)
    in if disc < 0 then None
       else if a = 0 then None
       else if 0 \<le> min t0 t1 then Some (Fin (min t0 t1))
       else if 0 \<le> max t0 t1 then Some (Fin (max t0 t1))
       else None)"
  by (rule intersect_Fin)

theorem intersect_selects_root_witness:
  "intersect (Sphere (vec 0 0 (-10)) (Fin 1) (vec 1 0 0)) (Ray (vec 0 0 (-10)) (vec 0 0 (-1))) = Some (Fin 1)"
  using intersect_selects_root [of 0 0 "-10" 1 "vec 1 0 0" 0 0 "-10" 0 0 "-1"]
  by (simp add: sqrt_4)

text \<open>
  C6.  Called with \<open>depth > 2\<close>, \<open>trace\<close> returns \<open>(0.1, 0.1, 0.1)\<close> whatever the ray,
  the scene and the light position.  A chain of \<open>n\<close> nested recursive calls below a call at
  depth 0 ends in a call at depth \<open>n\<close>, and \<open>n \<le> 3\<close>: rays are examined at the depths
  0, 1 and 2 only.
\<close>

theorem trace_depth_cutoff:
  "(2 < depth \<longrightarrow> trace ray spheres lightPos depth = Vec3 (Fin 0.1) (Fin 0.1) (Fin 0.1)) \<and>
   (\<forall>n call. (trace_rel ^^ n) call (ray, spheres, lightPos, 0) \<longrightarrow>
      snd (snd (snd call)) = int n \<and> n \<le> 3)"
proof (intro conjI impI allI)
  assume "2 < depth"
  then show "trace ray spheres lightPos depth = Vec3 (Fin 0.1) (Fin 0.1) (Fin 0.1)"
    by (rule trace_beyond_depth)
next
  fix n call
  assume "(trace_rel ^^ n) call (ray, spheres, lightPos, 0)"
  from trace_rel_chain [OF this]
  show "snd (snd (snd call)) = int n" and "n \<le> 3" by auto
qed

theorem trace_depth_cutoff_witness:
  "2 < (3::int) \<and>
   trace (Ray (vec 0 0 0) (vec 0 0 (-1)))
     [Sphere (vec 0 0 (-10)) (Fin 1) (vec 1 0 0), Sphere (vec 0 0 10) (Fin 1) (vec 0 1 0)]
     (vec 0 0 20) 3 = Vec3 (Fin 0.1) (Fin 0.1) (Fin 0.1) \<and>
   (trace_rel ^^ 1)
     (Ray (vec 0 0 (- 8.999)) (vec 0 0 1),
      [Sphere (vec 0 0 (-10)) (Fin 1) (vec 1 0 0), Sphere (vec 0 0 10) (Fin 1) (vec 0 1 0)],
      vec 0 0 20, 1)
     (Ray (vec 0 0 0) (vec 0 0 (-1)),
      [Sphere (vec 0 0 (-10)) (Fin 1) (vec 1 0 0), Sphere (vec 0 0 10) (Fin 1) (vec 0 1 0)],
      vec 0 0 20, 0) \<and>
   snd (snd (snd (Ray (vec 0 0 (- 8.999)) (vec 0 0 1),
      [Sphere (vec 0 0 (-10)) (Fin 1) (vec 1 0 0), Sphere (vec 0 0 10) (Fin 1) (vec 0 1 0)],
      vec 0 0 20, 1::int))) = int 1 \<and> (1::nat) \<le> 3"
  using trace_depth_cutoff [of 3 "Ray (vec 0 0 0) (vec 0 0 (-1))"
      "[Sphere (vec 0 0 (-10)) (Fin 1) (vec 1 0 0), Sphere (vec 0 0 10) (Fin 1) (vec 0 1 0)]"
      "vec 0 0 20"] ex_call
  by (simp add: eq_OO)

text \<open>
  C9.  \<open>trace\<close> terminates on every input: every argument tuple is in the domain of the
  recursion (the accessible part of its call relation \<open>trace_rel\<close>).  A call with
  \<open>depth > 2\<close> returns at once; a call makes a recursive call only when its depth is at
  most 2, and the recursive call is at depth + 1 on the same scene and light position.
\<close>

theorem trace_terminates:
  "trace_dom (ray, spheres, lightPos, depth) \<and>
   (2 < depth \<longrightarrow> trace ray spheres lightPos depth = Vec3 (Fin 0.1) (Fin 0.1) (Fin 0.1)) \<and>
   (\<forall>ray' spheres' lightPos' depth'.
      trace_rel (ray', spheres', lightPos', depth') (ray, spheres, lightPos, depth) \<longrightarrow>
      depth' = depth + 1 \<and> depth \<le> 2 \<and> spheres' = spheres \<and> lightPos' = lightPos)"
proof (intro conjI allI impI)
  show "trace_dom (ray, spheres, lightPos, depth)" by (rule trace_total)
next
  assume "2 < depth"
  then show "trace ray spheres lightPos depth = Vec3 (Fin 0.1) (Fin 0.1) (Fin 0.1)"
    by (rule trace_beyond_depth)
next
  fix ray' spheres' lightPos' depth'
  assume "trace_rel (ray', spheres', lightPos', depth') (ray, spheres, lightPos, depth)"
  from trace_rel_depth [OF this]
  show "depth' = depth + 1" "depth \<le> 2" "spheres' = spheres" "lightPos' = lightPos" by auto
qed

theorem trace_terminates_witness:
  "trace_dom (Ray (vec 0 0 0) (vec 0 0 (-1)),
      [Sphere (vec 0 0 (-10)) (Fin 1) (vec 1 0 0), Sphere (vec 0 0 10) (Fin 1) (vec 0 1 0)],
      vec 0 0 20, 0) \<and>
   trace_rel
     (Ray (vec 0 0 (- 8.999)) (vec 0 0 1),
      [Sphere (vec 0 0 (-10)) (Fin 1) (vec 1 0 0), Sphere (vec 0 0 10) (Fin 1) (vec 0 1 0)],
      vec 0 0 20, 1)
     (Ray (vec 0 0 0) (vec 0 0 (-1)),
      [Sphere (vec 0 0 (-10)) (Fin 1) (vec 1 0 0), Sphere (vec 0 0 10) (Fin 1) (vec 0 1 0)],
      vec 0 0 20, 0) \<and>
   (1::int) = 0 + 1 \<and> (0::int) \<le> 2"
  using trace_terminates [of "Ray (vec 0 0 0) (vec 0 0 (-1))"
      "[Sphere (vec 0 0 (-10)) (Fin 1) (vec 1 0 0), Sphere (vec 0 0 10) (Fin 1) (vec 0 1 0)]"
      "vec 0 0 20" 0] ex_call
  by simp

subsection \<open>Camera ray and quantization\<close>

lemma normalize_Fin:
  assumes "x * x + y * y + z * z \<noteq> 0"
  shows "normalize_Vec3 (vec x y z) =
         vec (x / sqrt (x * x + y * y + z * z)) (y / sqrt (x * x + y * y + z * z))
             (z / sqrt (x * x + y * y + z * z))"
proof -
  have "0 \<le> x * x + y * y + z * z" by (simp add: add_nonneg_nonneg)
  then have 1: "\<not> x * x + y * y + z * z < 0" by (simp add: not_less)
  from assms have 2: "sqrt (x * x + y * y + z * z) \<noteq> 0" by simp
  show ?thesis using 1 2 by (simp add: Let_def)
qed

lemma camera_ray_Fin:
  assumes "width \<noteq> 0" and "height \<noteq> 0"
  shows "camera_ray width height x y =
     (let u = (2 * (real_of_int x + 0.5) / real_of_int width - 1)
                * (real_of_int width / real_of_int height);
          v = 1 - 2 * (real_of_int y + 0.5) / real_of_int height
      in Ray (vec 0 0 0) (normalize_Vec3 (vec u v (- 1))))"
  using assms by (simp add: camera_ray_def float_of_int_def minus_fl_def Let_def)

lemma to_Uint8_floor:
  assumes "0 \<le> r"
  shows "to_Uint8 (std_min (Fin r) (Fin 1) * Fin 255) = Some (word_of_int \<lfloor>min r 1 * 255\<rfloor>)"
proof -
  have m: "std_min (Fin r) (Fin 1) = Fin (min r 1)"
    by (simp add: std_min_def min_def)
  have "0 \<le> min r 1 * 255" "min r 1 * 255 < 256" using assms by (auto simp: min_def)
  then show ?thesis
    unfolding m by (simp add: to_Uint8_def)
qed

lemma floor_channel_range:
  assumes "0 \<le> (r::real)"
  shows "0 \<le> \<lfloor>min r 1 * 255\<rfloor> \<and> \<lfloor>min r 1 * 255\<rfloor> \<le> 255"
proof -
  have "0 \<le> min r 1 * 255" "min r 1 * 255 \<le> 255" using assms by (auto simp: min_def)
  then show ?thesis by (simp add: floor_le_iff le_floor_iff)
qed

subsection \<open>Shading and reflection\<close>

lemma std_max_Fin: "std_max (Fin r) (Fin 0) = Fin (max r 0)"
  by (simp add: std_max_def max_def)

lemma intersect_receding:
  fixes cx cy cz r ox oy oz dx dy dz :: real
  assumes b: "0 < (ox - cx) * dx + (oy - cy) * dy + (oz - cz) * dz"
    and c: "r * r < (ox - cx) * (ox - cx) + (oy - cy) * (oy - cy) + (oz - cz) * (oz - cz)"
  shows "intersect (Sphere (vec cx cy cz) (Fin r) col) (Ray (vec ox oy oz) (vec dx dy dz)) = None"
proof -
  define a where "a = dx * dx + dy * dy + dz * dz"
  define b' where "b' = 2 * ((ox - cx) * dx + (oy - cy) * dy + (oz - cz) * dz)"
  define c' where "c' = (ox - cx) * (ox - cx) + (oy - cy) * (oy - cy) + (oz - cz) * (oz - cz) - r * r"
  define disc where "disc = b' * b' - 4 * a * c'"
  have b0: "0 < b'" using b by (simp add: b'_def)
  have c0: "0 < c'" using c by (simp add: c'_def)
  have "a \<noteq> 0"
  proof
    assume "a = 0"
    then have "dx = 0" "dy = 0" "dz = 0" by (simp_all add: a_def sum_squares3_eq_0)
    with b show False by simp
  qed
  moreover have "0 \<le> a" by (simp add: a_def add_nonneg_nonneg)
  ultimately have a0: "0 < a" by simp
  have neg: "(- b' + sqrt disc) / (2 * a) < 0 \<and> (- b' - sqrt disc) / (2 * a) < 0" if d: "0 \<le> disc"
  proof -
    have "0 < 4 * a * c'" using a0 c0 by simp
    then have "disc < b' * b'" by (simp add: disc_def)
    then have "sqrt disc < sqrt (b' * b')" by (rule real_sqrt_less_mono)
    also have "\<dots> = b'" using b0 by simp
    finally have 1: "sqrt disc < b'" .
    have 2: "0 \<le> sqrt disc" using d by simp
    from 1 have "- b' + sqrt disc < 0" by linarith
    moreover from 2 b0 have "- b' - sqrt disc < 0" by linarith
    moreover from a0 have "0 < 2 * a" by simp
    ultimately show ?thesis by (simp add: divide_neg_pos)
  qed
  show ?thesis
    unfolding intersect_Fin Let_def a_def [symmetric] b'_def [symmetric] c'_def [symmetric]
      disc_def [symmetric]
    using neg \<open>a \<noteq> 0\<close> by (auto simp: min_def max_def not_less)
qed

lemma sqrt_64: "sqrt 64 = 8"
  by (rule real_sqrt_unique) simp_all

lemma sqrt_25: "sqrt 25 = 5"
  by (rule real_sqrt_unique) simp_all

lemma ex2_nearest:
  "nearest_loop (Ray (vec 0 0 0) (vec 0 0 (- 1)))
     [Sphere (vec 3 0 (- 10)) (Fin 5) (vec 1 0.5 0),
      Sphere (vec (- 0.0006) 3 (- 1.9992)) (Fin 1) (vec 0 0 1)] 0 (Fin 1000000000, None)
   = (Fin 6, Some 0)"
  by (simp add: intersect_Fin sqrt_64)

lemma ex2_shadow:
  "intersect (Sphere (vec (- 0.0006) 3 (- 1.9992)) (Fin 1) (vec 0 0 1))
     (Ray (vec (- 0.0006) 0 (- 5.9992)) (vec 0 0.6 0.8)) = Some (Fin 4)"
  by (simp add: intersect_Fin sqrt_4)

lemma ex2_reflect_miss:
  "nearest_loop (Ray (vec (- 0.0006) 0 (- 5.9992)) (vec (- 0.96) 0 0.28))
     [Sphere (vec 3 0 (- 10)) (Fin 5) (vec 1 0.5 0),
      Sphere (vec (- 0.0006) 3 (- 1.9992)) (Fin 1) (vec 0 0 1)] 0 (Fin 1000000000, None)
   = (Fin 1000000000, None)"
proof -
  have 1: "intersect (Sphere (vec 3 0 (- 10)) (Fin 5) (vec 1 0.5 0))
     (Ray (vec (- 0.0006) 0 (- 5.9992)) (vec (- 0.96) 0 0.28)) = None"
    by (rule intersect_receding) simp_all
  have 2: "intersect (Sphere (vec (- 0.0006) 3 (- 1.9992)) (Fin 1) (vec 0 0 1))
     (Ray (vec (- 0.0006) 0 (- 5.9992)) (vec (- 0.96) 0 0.28)) = None"
    by (simp add: intersect_Fin)
  from 1 2 show ?thesis by simp
qed

text \<open>
  C4.  When \<open>trace\<close> (at a depth of at most 2) resolves a hit on sphere \<open>h\<close>, the base
  colour it composites is the colour of the sphere, each component multiplied by
  \<open>diff = std::max(dot(normal, lightDir), 0)\<close>, and multiplied by 0.2 as well exactly
  when some sphere of the scene other than \<open>h\<close> intersects the shadow ray that starts at
  \<open>hitPoint + normal \<sqdot> 0.001\<close> and points to the light.  The first part states it for
  every hit; the second part spells every operation out in real arithmetic, for a ray, a
  light and a hit sphere with real components and vectors to normalize that are not of
  length 0: \<open>hitPoint = origin + direction \<sqdot> t\<close>, \<open>normal\<close> and \<open>lightDir\<close> are
  \<open>hitPoint - center\<close> and \<open>lightPos - hitPoint\<close> divided by their lengths, \<open>diff\<close> is
  the greater of their dot product and 0.
\<close>

theorem base_color_shading:
  "(\<not> 2 < depth \<and> nearest_loop ray spheres 0 (Fin 1000000000, None) = (nearest, Some h) \<longrightarrow>
      (let hitPoint = origin ray + scale (direction ray) nearest;
           normal = normalize_Vec3 (hitPoint - center (spheres ! h));
           lightDir = normalize_Vec3 (lightPos - hitPoint);
           shadowRay = Ray (hitPoint + scale normal (Fin 0.001)) lightDir;
           inShadow = (\<exists>j<length spheres. j \<noteq> h \<and> intersect (spheres ! j) shadowRay \<noteq> None);
           lit = scale (color (spheres ! h)) (std_max (dot normal lightDir) (Fin 0));
           baseColor = (if inShadow then scale lit (Fin 0.2) else lit);
           reflectDir = normalize_Vec3
             (direction ray - scale (scale normal (Fin 2)) (dot (direction ray) normal));
           reflectedColor = trace (Ray (hitPoint + scale normal (Fin 0.001)) reflectDir)
             spheres lightPos (depth + 1)
       in trace ray spheres lightPos depth =
            scale baseColor (Fin 1 - Fin 0.5) + scale reflectedColor (Fin 0.5))) \<and>
   (\<not> 2 < depth \<and>
    nearest_loop (Ray (vec ox oy oz) (vec dx dy dz)) spheres 0 (Fin 1000000000, None)
      = (Fin t, Some h) \<and>
    spheres ! h = Sphere (vec cx cy cz) rad (vec cr cg cb) \<longrightarrow>
       (let px = ox + dx * t; py = oy + dy * t; pz = oz + dz * t;
            mn = sqrt ((px - cx) * (px - cx) + (py - cy) * (py - cy) + (pz - cz) * (pz - cz));
            nx = (px - cx) / mn; ny = (py - cy) / mn; nz = (pz - cz) / mn;
            ml = sqrt ((lx - px) * (lx - px) + (ly - py) * (ly - py) + (lz - pz) * (lz - pz));
            ux = (lx - px) / ml; uy = (ly - py) / ml; uz = (lz - pz) / ml;
            diff = max (nx * ux + ny * uy + nz * uz) 0;
            sx = px + nx * 0.001; sy = py + ny * 0.001; sz = pz + nz * 0.001;
            inShadow = (\<exists>j<length spheres. j \<noteq> h \<and>
               intersect (spheres ! j) (Ray (vec sx sy sz) (vec ux uy uz)) \<noteq> None);
            dn = dx * nx + dy * ny + dz * nz;
            rx = dx - nx * 2 * dn; ry = dy - ny * 2 * dn; rz = dz - nz * 2 * dn;
            mr = sqrt (rx * rx + ry * ry + rz * rz);
            reflectRay = Ray (vec sx sy sz) (vec (rx / mr) (ry / mr) (rz / mr));
            baseColor = (if inShadow then vec (cr * diff * 0.2) (cg * diff * 0.2) (cb * diff * 0.2)
                         else vec (cr * diff) (cg * diff) (cb * diff))
        in mn \<noteq> 0 \<and> ml \<noteq> 0 \<and> mr \<noteq> 0 \<longrightarrow>
           trace (Ray (vec ox oy oz) (vec dx dy dz)) spheres (vec lx ly lz) depth =
             scale baseColor (Fin 1 - Fin 0.5) +
             scale (trace reflectRay spheres (vec lx ly lz) (depth + 1)) (Fin 0.5)))"
proof (intro conjI impI)
  assume a: "\<not> 2 < depth \<and> nearest_loop ray spheres 0 (Fin 1000000000, None) = (nearest, Some h)"
  then have d: "\<not> 2 < depth"
    and n: "nearest_loop ray spheres 0 (Fin 1000000000, None) = (nearest, Some h)" by simp_all
  show "let hitPoint = origin ray + scale (direction ray) nearest;
           normal = normalize_Vec3 (hitPoint - center (spheres ! h));
           lightDir = normalize_Vec3 (lightPos - hitPoint);
           shadowRay = Ray (hitPoint + scale normal (Fin 0.001)) lightDir;
           inShadow = (\<exists>j<length spheres. j \<noteq> h \<and> intersect (spheres ! j) shadowRay \<noteq> None);
           lit = scale (color (spheres ! h)) (std_max (dot normal lightDir) (Fin 0));
           baseColor = (if inShadow then scale lit (Fin 0.2) else lit);
           reflectDir = normalize_Vec3
             (direction ray - scale (scale normal (Fin 2)) (dot (direction ray) normal));
           reflectedColor = trace (Ray (hitPoint + scale normal (Fin 0.001)) reflectDir)
             spheres lightPos (depth + 1)
       in trace ray spheres lightPos depth =
            scale baseColor (Fin 1 - Fin 0.5) + scale reflectedColor (Fin 0.5)"
    unfolding trace_hit [OF d n] Let_def shadow_loop_iff [of _ spheres 0 h]
    by simp
next
  assume a: "\<not> 2 < depth \<and>
    nearest_loop (Ray (vec ox oy oz) (vec dx dy dz)) spheres 0 (Fin 1000000000, None)
      = (Fin t, Some h) \<and>
    spheres ! h = Sphere (vec cx cy cz) rad (vec cr cg cb)"
  then have d0: "\<not> 2 < depth"
    and n0: "nearest_loop (Ray (vec ox oy oz) (vec dx dy dz)) spheres 0 (Fin 1000000000, None)
      = (Fin t, Some h)"
    and s0: "spheres ! h = Sphere (vec cx cy cz) rad (vec cr cg cb)" by simp_all
  have unit_vec: "normalize_Vec3 (vec x y z) = vec (x / m) (y / m) (z / m)"
    if m: "m = sqrt (x * x + y * y + z * z)" and m0: "m \<noteq> 0" for x y z m
  proof -
    have "0 \<le> x * x + y * y + z * z" by (simp add: add_nonneg_nonneg)
    then have 1: "\<not> x * x + y * y + z * z < 0" by (simp add: not_less)
    from m0 have 2: "sqrt (x * x + y * y + z * z) \<noteq> 0" unfolding m .
    show ?thesis unfolding m using 1 2 by (simp add: Let_def)
  qed
  have real: "trace (Ray (vec ox oy oz) (vec dx dy dz)) spheres (vec lx ly lz) depth =
       scale (if (\<exists>j<length spheres. j \<noteq> h \<and>
                    intersect (spheres ! j) (Ray (vec sx sy sz) (vec ux uy uz)) \<noteq> None)
              then vec (cr * diff * 0.2) (cg * diff * 0.2) (cb * diff * 0.2)
              else vec (cr * diff) (cg * diff) (cb * diff)) (Fin 1 - Fin 0.5)
       + scale (trace (Ray (vec sx sy sz) (vec (rx / mr) (ry / mr) (rz / mr))) spheres (vec lx ly lz)
                  (depth + 1)) (Fin 0.5)"
    if p: "px = ox + dx * t" "py = oy + dy * t" "pz = oz + dz * t"
      and mn: "mn = sqrt ((px - cx) * (px - cx) + (py - cy) * (py - cy) + (pz - cz) * (pz - cz))"
        "mn \<noteq> 0"
      and n: "nx = (px - cx) / mn" "ny = (py - cy) / mn" "nz = (pz - cz) / mn"
      and ml: "ml = sqrt ((lx - px) * (lx - px) + (ly - py) * (ly - py) + (lz - pz) * (lz - pz))"
        "ml \<noteq> 0"
      and u: "ux = (lx - px) / ml" "uy = (ly - py) / ml" "uz = (lz - pz) / ml"
      and diff: "diff = max (nx * ux + ny * uy + nz * uz) 0"
      and s: "sx = px + nx * 0.001" "sy = py + ny * 0.001" "sz = pz + nz * 0.001"
      and dn: "dn = dx * nx + dy * ny + dz * nz"
      and r: "rx = dx - nx * 2 * dn" "ry = dy - ny * 2 * dn" "rz = dz - nz * 2 * dn"
      and mr: "mr = sqrt (rx * rx + ry * ry + rz * rz)" "mr \<noteq> 0"
    for px py pz mn nx ny nz ml ux uy uz diff sx sy sz dn rx ry rz mr
  proof -
    define ray where "ray = Ray (vec ox oy oz) (vec dx dy dz)"
    have hp: "origin ray + scale (direction ray) (Fin t) = vec px py pz"
      by (simp add: ray_def p)
    have nv: "vec px py pz - center (spheres ! h) = vec (px - cx) (py - cy) (pz - cz)"
      by (simp add: s0 minus_fl_def)
    have nrm: "normalize_Vec3 (vec (px - cx) (py - cy) (pz - cz)) = vec nx ny nz"
      unfolding n by (rule unit_vec [OF mn])
    have lv: "vec lx ly lz - vec px py pz = vec (lx - px) (ly - py) (lz - pz)"
      by (simp add: minus_fl_def)
    have lgt: "normalize_Vec3 (vec (lx - px) (ly - py) (lz - pz)) = vec ux uy uz"
      unfolding u by (rule unit_vec [OF ml])
    have df: "std_max (dot (vec nx ny nz) (vec ux uy uz)) (Fin 0) = Fin diff"
      by (simp add: std_max_Fin diff)
    have so: "vec px py pz + scale (vec nx ny nz) (Fin 0.001) = vec sx sy sz"
      by (simp add: s)
    have lit: "scale (color (spheres ! h)) (Fin diff) = vec (cr * diff) (cg * diff) (cb * diff)"
      by (simp add: s0)
    have dim: "scale (vec (cr * diff) (cg * diff) (cb * diff)) (Fin 0.2)
               = vec (cr * diff * 0.2) (cg * diff * 0.2) (cb * diff * 0.2)"
      by simp
    have rd: "direction ray - scale (scale (vec nx ny nz) (Fin 2)) (dot (direction ray) (vec nx ny nz))
              = vec rx ry rz"
      by (simp add: ray_def minus_fl_def r dn)
    have rn: "normalize_Vec3 (vec rx ry rz) = vec (rx / mr) (ry / mr) (rz / mr)"
      by (rule unit_vec [OF mr])
    have "trace ray spheres (vec lx ly lz) depth =
       scale (if shadow_loop (Ray (vec sx sy sz) (vec ux uy uz)) spheres 0 h
              then vec (cr * diff * 0.2) (cg * diff * 0.2) (cb * diff * 0.2)
              else vec (cr * diff) (cg * diff) (cb * diff)) (Fin 1 - Fin 0.5)
       + scale (trace (Ray (vec sx sy sz) (vec (rx / mr) (ry / mr) (rz / mr))) spheres (vec lx ly lz)
                  (depth + 1)) (Fin 0.5)"
      unfolding trace_hit [OF d0 n0 [folded ray_def]] Let_def
      by (simp only: hp nv nrm lv lgt df so lit dim rd rn if_distrib [of "\<lambda>c. scale c (Fin 1 - Fin 0.5)"])
    then show ?thesis
      unfolding ray_def shadow_loop_iff [of _ spheres 0 h] by simp
  qed
  show "let px = ox + dx * t; py = oy + dy * t; pz = oz + dz * t;
            mn = sqrt ((px - cx) * (px - cx) + (py - cy) * (py - cy) + (pz - cz) * (pz - cz));
            nx = (px - cx) / mn; ny = (py - cy) / mn; nz = (pz - cz) / mn;
            ml = sqrt ((lx - px) * (lx - px) + (ly - py) * (ly - py) + (lz - pz) * (lz - pz));
            ux = (lx - px) / ml; uy = (ly - py) / ml; uz = (lz - pz) / ml;
            diff = max (nx * ux + ny * uy + nz * uz) 0;
            sx = px + nx * 0.001; sy = py + ny * 0.001; sz = pz + nz * 0.001;
            inShadow = (\<exists>j<length spheres. j \<noteq> h \<and>
               intersect (spheres ! j) (Ray (vec sx sy sz) (vec ux uy uz)) \<noteq> None);
            dn = dx * nx + dy * ny + dz * nz;
            rx = dx - nx * 2 * dn; ry = dy - ny * 2 * dn; rz = dz - nz * 2 * dn;
            mr = sqrt (rx * rx + ry * ry + rz * rz);
            reflectRay = Ray (vec sx sy sz) (vec (rx / mr) (ry / mr) (rz / mr));
            baseColor = (if inShadow then vec (cr * diff * 0.2) (cg * diff * 0.2) (cb * diff * 0.2)
                         else vec (cr * diff) (cg * diff) (cb * diff))
        in mn \<noteq> 0 \<and> ml \<noteq> 0 \<and> mr \<noteq> 0 \<longrightarrow>
           trace (Ray (vec ox oy oz) (vec dx dy dz)) spheres (vec lx ly lz) depth =
             scale baseColor (Fin 1 - Fin 0.5) +
             scale (trace reflectRay spheres (vec lx ly lz) (depth + 1)) (Fin 0.5)"
    unfolding Let_def
    apply (intro impI)
    apply (elim conjE)
    apply (rule real [OF refl refl refl refl _ refl refl refl refl _ refl refl refl
          refl refl refl refl refl refl refl refl refl])
      apply assumption+
    done
qed

lemma ex2_in_shadow:
  "\<exists>j<length [Sphere (vec 3 0 (- 10)) (Fin 5) (vec 1 0.5 0),
      Sphere (vec (- 0.0006) 3 (- 1.9992)) (Fin 1) (vec 0 0 1)]. j \<noteq> 0 \<and>
     intersect ([Sphere (vec 3 0 (- 10)) (Fin 5) (vec 1 0.5 0),
      Sphere (vec (- 0.0006) 3 (- 1.9992)) (Fin 1) (vec 0 0 1)] ! j) (Ray (vec (- 0.0006) 0 (- 5.9992)) (vec 0 0.6 0.8)) \<noteq> None"
  by (rule exI [of _ 1]) (simp add: intersect_Fin sqrt_4)

theorem base_color_shading_witness:
  "\<not> 2 < (2::int) \<and>
   nearest_loop (Ray (vec 0 0 0) (vec 0 0 (- 1))) [Sphere (vec 3 0 (- 10)) (Fin 5) (vec 1 0.5 0),
      Sphere (vec (- 0.0006) 3 (- 1.9992)) (Fin 1) (vec 0 0 1)] 0 (Fin 1000000000, None) = (Fin 6, Some 0) \<and>
   [Sphere (vec 3 0 (- 10)) (Fin 5) (vec 1 0.5 0),
      Sphere (vec (- 0.0006) 3 (- 1.9992)) (Fin 1) (vec 0 0 1)] ! 0 = Sphere (vec 3 0 (- 10)) (Fin 5) (vec 1 0.5 0) \<and>
   sqrt ((0 + 0 * 6 - 3) * (0 + 0 * 6 - 3) + (0 + 0 * 6 - 0) * (0 + 0 * 6 - 0)
         + (0 + (- 1) * 6 - (- 10)) * (0 + (- 1) * 6 - (- 10))) = (5::real) \<and>
   (\<exists>j<length [Sphere (vec 3 0 (- 10)) (Fin 5) (vec 1 0.5 0),
      Sphere (vec (- 0.0006) 3 (- 1.9992)) (Fin 1) (vec 0 0 1)]. j \<noteq> 0 \<and>
     intersect ([Sphere (vec 3 0 (- 10)) (Fin 5) (vec 1 0.5 0),
      Sphere (vec (- 0.0006) 3 (- 1.9992)) (Fin 1) (vec 0 0 1)] ! j) (Ray (vec (- 0.0006) 0 (- 5.9992)) (vec 0 0.6 0.8)) \<noteq> None) \<and>
   trace (Ray (vec 0 0 0) (vec 0 0 (- 1))) [Sphere (vec 3 0 (- 10)) (Fin 5) (vec 1 0.5 0),
      Sphere (vec (- 0.0006) 3 (- 1.9992)) (Fin 1) (vec 0 0 1)] (vec 0 3 (- 2)) 2 =
     scale (vec (1 * 0.64 * 0.2) (0.5 * 0.64 * 0.2) (0 * 0.64 * 0.2)) (Fin 1 - Fin 0.5) +
     scale (trace (Ray (vec (- 0.0006) 0 (- 5.9992)) (vec (- 0.96) 0 0.28)) [Sphere (vec 3 0 (- 10)) (Fin 5) (vec 1 0.5 0),
      Sphere (vec (- 0.0006) 3 (- 1.9992)) (Fin 1) (vec 0 0 1)] (vec 0 3 (- 2)) 3)
       (Fin 0.5) \<and>
   trace (Ray (vec 0 0 0) (vec 0 0 (- 1))) [Sphere (vec 3 0 (- 10)) (Fin 5) (vec 1 0.5 0),
      Sphere (vec (- 0.0006) 3 (- 1.9992)) (Fin 1) (vec 0 0 1)] (vec 0 3 (- 2)) 2 = vec 0.114 0.082 0.05"
proof -
  have d: "\<not> 2 < (2::int)" by simp
  have s0: "[Sphere (vec 3 0 (- 10)) (Fin 5) (vec 1 0.5 0),
      Sphere (vec (- 0.0006) 3 (- 1.9992)) (Fin 1) (vec 0 0 1)] ! 0 = Sphere (vec 3 0 (- 10)) (Fin 5) (vec 1 0.5 0)" by simp
  have m: "sqrt ((0 + 0 * 6 - 3) * (0 + 0 * 6 - 3) + (0 + 0 * 6 - 0) * (0 + 0 * 6 - 0)
         + (0 + (- 1) * 6 - (- 10)) * (0 + (- 1) * 6 - (- 10))) = (5::real)"
    by (simp add: sqrt_25)
  from base_color_shading [where depth = 2 and ox = 0 and oy = 0 and oz = 0
      and dx = 0 and dy = 0 and dz = "- 1" and t = 6 and h = 0 and cx = 3 and cy = 0 and cz = "- 10"
      and rad = "Fin 5" and cr = 1 and cg = "0.5" and cb = 0 and lx = 0 and ly = 3 and lz = "- 2"
      and spheres = "[Sphere (vec 3 0 (- 10)) (Fin 5) (vec 1 0.5 0),
      Sphere (vec (- 0.0006) 3 (- 1.9992)) (Fin 1) (vec 0 0 1)]", THEN conjunct2, unfolded Let_def] ex2_nearest ex2_in_shadow
  have eq: "trace (Ray (vec 0 0 0) (vec 0 0 (- 1))) [Sphere (vec 3 0 (- 10)) (Fin 5) (vec 1 0.5 0),
      Sphere (vec (- 0.0006) 3 (- 1.9992)) (Fin 1) (vec 0 0 1)] (vec 0 3 (- 2)) 2 =
     scale (vec (1 * 0.64 * 0.2) (0.5 * 0.64 * 0.2) (0 * 0.64 * 0.2)) (Fin 1 - Fin 0.5) +
     scale (trace (Ray (vec (- 0.0006) 0 (- 5.9992)) (vec (- 0.96) 0 0.28)) [Sphere (vec 3 0 (- 10)) (Fin 5) (vec 1 0.5 0),
      Sphere (vec (- 0.0006) 3 (- 1.9992)) (Fin 1) (vec 0 0 1)] (vec 0 3 (- 2)) 3)
       (Fin 0.5)"
    by (simp add: sqrt_25 del: nearest_loop.simps)
  have direct: "trace (Ray (vec 0 0 0) (vec 0 0 (- 1))) [Sphere (vec 3 0 (- 10)) (Fin 5) (vec 1 0.5 0),
      Sphere (vec (- 0.0006) 3 (- 1.9992)) (Fin 1) (vec 0 0 1)] (vec 0 3 (- 2)) 2 = vec 0.114 0.082 0.05"
    by (subst trace_hit [OF d ex2_nearest])
      (simp add: intersect_Fin sqrt_4 sqrt_25 Let_def minus_fl_def std_max_def
        trace_beyond_depth)
  from d ex2_nearest s0 m ex2_in_shadow eq direct show ?thesis by (intro conjI)
qed

text \<open>
  C5.  When \<open>trace\<close> at depth \<open>d \<le> 2\<close> resolves a hit, the colour it returns is
  \<open>baseColor \<sqdot> (1 - 0.5) + reflectedColor \<sqdot> 0.5\<close>, whichever sphere is hit, where
  \<open>reflectedColor\<close> is \<open>trace\<close> at depth \<open>d + 1\<close> on the ray from
  \<open>hitPoint + normal \<sqdot> 0.001\<close> in the normalized direction
  \<open>direction - normal \<sqdot> 2 \<sqdot> dot(direction, normal)\<close>.  The first part states it for every
  hit; the second part spells every operation out in real arithmetic, for a ray, a light and
  a hit sphere with real components, vectors to normalize that are not of length 0 and a
  reflected colour with real components: the reflected direction is
  \<open>(rx, ry, rz) / sqrt (rx\<^sup>2 + ry\<^sup>2 + rz\<^sup>2)\<close> with
  \<open>rx = dx - nx \<sqdot> 2 \<sqdot> (dx nx + dy ny + dz nz)\<close> and likewise \<open>ry\<close>, \<open>rz\<close>, and each
  component of the result is \<open>b \<sqdot> (1 - 0.5) + r \<sqdot> 0.5\<close>.
\<close>

theorem reflection_composite:
  "(\<not> 2 < depth \<and> nearest_loop ray spheres 0 (Fin 1000000000, None) = (nearest, Some h) \<longrightarrow>
      (let hitPoint = origin ray + scale (direction ray) nearest;
           normal = normalize_Vec3 (hitPoint - center (spheres ! h));
           lightDir = normalize_Vec3 (lightPos - hitPoint);
           lit = scale (color (spheres ! h)) (std_max (dot normal lightDir) (Fin 0));
           baseColor =
             (if shadow_loop (Ray (hitPoint + scale normal (Fin 0.001)) lightDir) spheres 0 h
              then scale lit (Fin 0.2) else lit);
           reflectDir = direction ray - scale (scale normal (Fin 2)) (dot (direction ray) normal);
           reflectRay = Ray (hitPoint + scale normal (Fin 0.001)) (normalize_Vec3 reflectDir);
           reflectedColor = trace reflectRay spheres lightPos (depth + 1)
       in trace ray spheres lightPos depth =
            scale baseColor (Fin 1 - Fin 0.5) + scale reflectedColor (Fin 0.5))) \<and>
   (\<not> 2 < depth \<and>
    nearest_loop (Ray (vec ox oy oz) (vec dx dy dz)) spheres 0 (Fin 1000000000, None)
      = (Fin t, Some h) \<and>
    spheres ! h = Sphere (vec cx cy cz) rad (vec cr cg cb) \<longrightarrow>
       (let px = ox + dx * t; py = oy + dy * t; pz = oz + dz * t;
            mn = sqrt ((px - cx) * (px - cx) + (py - cy) * (py - cy) + (pz - cz) * (pz - cz));
            nx = (px - cx) / mn; ny = (py - cy) / mn; nz = (pz - cz) / mn;
            ml = sqrt ((lx - px) * (lx - px) + (ly - py) * (ly - py) + (lz - pz) * (lz - pz));
            ux = (lx - px) / ml; uy = (ly - py) / ml; uz = (lz - pz) / ml;
            diff = max (nx * ux + ny * uy + nz * uz) 0;
            sx = px + nx * 0.001; sy = py + ny * 0.001; sz = pz + nz * 0.001;
            inShadow = (\<exists>j<length spheres. j \<noteq> h \<and>
               intersect (spheres ! j) (Ray (vec sx sy sz) (vec ux uy uz)) \<noteq> None);
            dn = dx * nx + dy * ny + dz * nz;
            rx = dx - nx * 2 * dn; ry = dy - ny * 2 * dn; rz = dz - nz * 2 * dn;
            mr = sqrt (rx * rx + ry * ry + rz * rz);
            reflectRay = Ray (vec sx sy sz) (vec (rx / mr) (ry / mr) (rz / mr));
            br = (if inShadow then cr * diff * 0.2 else cr * diff);
            bg = (if inShadow then cg * diff * 0.2 else cg * diff);
            bb = (if inShadow then cb * diff * 0.2 else cb * diff)
        in mn \<noteq> 0 \<and> ml \<noteq> 0 \<and> mr \<noteq> 0 \<and>
           trace reflectRay spheres (vec lx ly lz) (depth + 1) = vec rr rg rb \<longrightarrow>
           trace (Ray (vec ox oy oz) (vec dx dy dz)) spheres (vec lx ly lz) depth =
             vec (br * (1 - 0.5) + rr * 0.5) (bg * (1 - 0.5) + rg * 0.5) (bb * (1 - 0.5) + rb * 0.5)))"
proof (intro conjI impI)
  assume a: "\<not> 2 < depth \<and> nearest_loop ray spheres 0 (Fin 1000000000, None) = (nearest, Some h)"
  then have d: "\<not> 2 < depth"
    and n: "nearest_loop ray spheres 0 (Fin 1000000000, None) = (nearest, Some h)" by simp_all
  show "let hitPoint = origin ray + scale (direction ray) nearest;
           normal = normalize_Vec3 (hitPoint - center (spheres ! h));
           lightDir = normalize_Vec3 (lightPos - hitPoint);
           lit = scale (color (spheres ! h)) (std_max (dot normal lightDir) (Fin 0));
           baseColor =
             (if shadow_loop (Ray (hitPoint + scale normal (Fin 0.001)) lightDir) spheres 0 h
              then scale lit (Fin 0.2) else lit);
           reflectDir = direction ray - scale (scale normal (Fin 2)) (dot (direction ray) normal);
           reflectRay = Ray (hitPoint + scale normal (Fin 0.001)) (normalize_Vec3 reflectDir);
           reflectedColor = trace reflectRay spheres lightPos (depth + 1)
       in trace ray spheres lightPos depth =
            scale baseColor (Fin 1 - Fin 0.5) + scale reflectedColor (Fin 0.5)"
    unfolding trace_hit [OF d n] Let_def by simp
next
  assume a: "\<not> 2 < depth \<and>
    nearest_loop (Ray (vec ox oy oz) (vec dx dy dz)) spheres 0 (Fin 1000000000, None)
      = (Fin t, Some h) \<and>
    spheres ! h = Sphere (vec cx cy cz) rad (vec cr cg cb)"
  then have d0: "\<not> 2 < depth"
    and n0: "nearest_loop (Ray (vec ox oy oz) (vec dx dy dz)) spheres 0 (Fin 1000000000, None)
      = (Fin t, Some h)"
    and s0: "spheres ! h = Sphere (vec cx cy cz) rad (vec cr cg cb)" by simp_all
  have unit_vec: "normalize_Vec3 (vec x y z) = vec (x / m) (y / m) (z / m)"
    if m: "m = sqrt (x * x + y * y + z * z)" and m0: "m \<noteq> 0" for x y z m
  proof -
    have "0 \<le> x * x + y * y + z * z" by (simp add: add_nonneg_nonneg)
    then have 1: "\<not> x * x + y * y + z * z < 0" by (simp add: not_less)
    from m0 have 2: "sqrt (x * x + y * y + z * z) \<noteq> 0" unfolding m .
    show ?thesis unfolding m using 1 2 by (simp add: Let_def)
  qed
  have real: "trace (Ray (vec ox oy oz) (vec dx dy dz)) spheres (vec lx ly lz) depth =
       scale (if (\<exists>j<length spheres. j \<noteq> h \<and>
                    intersect (spheres ! j) (Ray (vec sx sy sz) (vec ux uy uz)) \<noteq> None)
              then vec (cr * diff * 0.2) (cg * diff * 0.2) (cb * diff * 0.2)
              else vec (cr * diff) (cg * diff) (cb * diff)) (Fin 1 - Fin 0.5)
       + scale (trace (Ray (vec sx sy sz) (vec (rx / mr) (ry / mr) (rz / mr))) spheres (vec lx ly lz)
                  (depth + 1)) (Fin 0.5)"
    if p: "px = ox + dx * t" "py = oy + dy * t" "pz = oz + dz * t"
      and mn: "mn = sqrt ((px - cx) * (px - cx) + (py - cy) * (py - cy) + (pz - cz) * (pz - cz))"
        "mn \<noteq> 0"
      and n: "nx = (px - cx) / mn" "ny = (py - cy) / mn" "nz = (pz - cz) / mn"
      and ml: "ml = sqrt ((lx - px) * (lx - px) + (ly - py) * (ly - py) + (lz - pz) * (lz - pz))"
        "ml \<noteq> 0"
      and u: "ux = (lx - px) / ml" "uy = (ly - py) / ml" "uz = (lz - pz) / ml"
      and diff: "diff = max (nx * ux + ny * uy + nz * uz) 0"
      and s: "sx = px + nx * 0.001" "sy = py + ny * 0.001" "sz = pz + nz * 0.001"
      and dn: "dn = dx * nx + dy * ny + dz * nz"
      and r: "rx = dx - nx * 2 * dn" "ry = dy - ny * 2 * dn" "rz = dz - nz * 2 * dn"
      and mr: "mr = sqrt (rx * rx + ry * ry + rz * rz)" "mr \<noteq> 0"
    for px py pz mn nx ny nz ml ux uy uz diff sx sy sz dn rx ry rz mr
  proof -
    define ray where "ray = Ray (vec ox oy oz) (vec dx dy dz)"
    have hp: "origin ray + scale (direction ray) (Fin t) = vec px py pz"
      by (simp add: ray_def p)
    have nv: "vec px py pz - center (spheres ! h) = vec (px - cx) (py - cy) (pz - cz)"
      by (simp add: s0 minus_fl_def)
    have nrm: "normalize_Vec3 (vec (px - cx) (py - cy) (pz - cz)) = vec nx ny nz"
      unfolding n by (rule unit_vec [OF mn])
    have lv: "vec lx ly lz - vec px py pz = vec (lx - px) (ly - py) (lz - pz)"
      by (simp add: minus_fl_def)
    have lgt: "normalize_Vec3 (vec (lx - px) (ly - py) (lz - pz)) = vec ux uy uz"
      unfolding u by (rule unit_vec [OF ml])
    have df: "std_max (dot (vec nx ny nz) (vec ux uy uz)) (Fin 0) = Fin diff"
      by (simp add: std_max_Fin diff)
    have so: "vec px py pz + scale (vec nx ny nz) (Fin 0.001) = vec sx sy sz"
      by (simp add: s)
    have lit: "scale (color (spheres ! h)) (Fin diff) = vec (cr * diff) (cg * diff) (cb * diff)"
      by (simp add: s0)
    have dim: "scale (vec (cr * diff) (cg * diff) (cb * diff)) (Fin 0.2)
               = vec (cr * diff * 0.2) (cg * diff * 0.2) (cb * diff * 0.2)"
      by simp
    have rd: "direction ray - scale (scale (vec nx ny nz) (Fin 2)) (dot (direction ray) (vec nx ny nz))
              = vec rx ry rz"
      by (simp add: ray_def minus_fl_def r dn)
    have rn: "normalize_Vec3 (vec rx ry rz) = vec (rx / mr) (ry / mr) (rz / mr)"
      by (rule unit_vec [OF mr])
    have "trace ray spheres (vec lx ly lz) depth =
       scale (if shadow_loop (Ray (vec sx sy sz) (vec ux uy uz)) spheres 0 h
              then vec (cr * diff * 0.2) (cg * diff * 0.2) (cb * diff * 0.2)
              else vec (cr * diff) (cg * diff) (cb * diff)) (Fin 1 - Fin 0.5)
       + scale (trace (Ray (vec sx sy sz) (vec (rx / mr) (ry / mr) (rz / mr))) spheres (vec lx ly lz)
                  (depth + 1)) (Fin 0.5)"
      unfolding trace_hit [OF d0 n0 [folded ray_def]] Let_def
      by (simp only: hp nv nrm lv lgt df so lit dim rd rn if_distrib [of "\<lambda>c. scale c (Fin 1 - Fin 0.5)"])
    then show ?thesis
      unfolding ray_def shadow_loop_iff [of _ spheres 0 h] by simp
  qed
  have composite: "trace (Ray (vec ox oy oz) (vec dx dy dz)) spheres (vec lx ly lz) depth =
      vec ((if inShadow then cr * diff * 0.2 else cr * diff) * (1 - 0.5) + rr * 0.5)
          ((if inShadow then cg * diff * 0.2 else cg * diff) * (1 - 0.5) + rg * 0.5)
          ((if inShadow then cb * diff * 0.2 else cb * diff) * (1 - 0.5) + rb * 0.5)"
    if p: "px = ox + dx * t" "py = oy + dy * t" "pz = oz + dz * t"
      and mn: "mn = sqrt ((px - cx) * (px - cx) + (py - cy) * (py - cy) + (pz - cz) * (pz - cz))"
        "mn \<noteq> 0"
      and n: "nx = (px - cx) / mn" "ny = (py - cy) / mn" "nz = (pz - cz) / mn"
      and ml: "ml = sqrt ((lx - px) * (lx - px) + (ly - py) * (ly - py) + (lz - pz) * (lz - pz))"
        "ml \<noteq> 0"
      and u: "ux = (lx - px) / ml" "uy = (ly - py) / ml" "uz = (lz - pz) / ml"
      and diff: "diff = max (nx * ux + ny * uy + nz * uz) 0"
      and s: "sx = px + nx * 0.001" "sy = py + ny * 0.001" "sz = pz + nz * 0.001"
      and dn: "dn = dx * nx + dy * ny + dz * nz"
      and r: "rx = dx - nx * 2 * dn" "ry = dy - ny * 2 * dn" "rz = dz - nz * 2 * dn"
      and mr: "mr = sqrt (rx * rx + ry * ry + rz * rz)" "mr \<noteq> 0"
      and sh: "inShadow = (\<exists>j<length spheres. j \<noteq> h \<and>
                  intersect (spheres ! j) (Ray (vec sx sy sz) (vec ux uy uz)) \<noteq> None)"
      and rf: "trace (Ray (vec sx sy sz) (vec (rx / mr) (ry / mr) (rz / mr))) spheres (vec lx ly lz)
                (depth + 1) = vec rr rg rb"
    for inShadow px py pz mn nx ny nz ml ux uy uz diff sx sy sz dn rx ry rz mr
    unfolding real [OF p mn n ml u diff s dn r mr] rf sh [symmetric]
    by (simp add: minus_fl_def)
  show "let px = ox + dx * t; py = oy + dy * t; pz = oz + dz * t;
            mn = sqrt ((px - cx) * (px - cx) + (py - cy) * (py - cy) + (pz - cz) * (pz - cz));
            nx = (px - cx) / mn; ny = (py - cy) / mn; nz = (pz - cz) / mn;
            ml = sqrt ((lx - px) * (lx - px) + (ly - py) * (ly - py) + (lz - pz) * (lz - pz));
            ux = (lx - px) / ml; uy = (ly - py) / ml; uz = (lz - pz) / ml;
            diff = max (nx * ux + ny * uy + nz * uz) 0;
            sx = px + nx * 0.001; sy = py + ny * 0.001; sz = pz + nz * 0.001;
            inShadow = (\<exists>j<length spheres. j \<noteq> h \<and>
               intersect (spheres ! j) (Ray (vec sx sy sz) (vec ux uy uz)) \<noteq> None);
            dn = dx * nx + dy * ny + dz * nz;
            rx = dx - nx * 2 * dn; ry = dy - ny * 2 * dn; rz = dz - nz * 2 * dn;
            mr = sqrt (rx * rx + ry * ry + rz * rz);
            reflectRay = Ray (vec sx sy sz) (vec (rx / mr) (ry / mr) (rz / mr));
            br = (if inShadow then cr * diff * 0.2 else cr * diff);
            bg = (if inShadow then cg * diff * 0.2 else cg * diff);
            bb = (if inShadow then cb * diff * 0.2 else cb * diff)
        in mn \<noteq> 0 \<and> ml \<noteq> 0 \<and> mr \<noteq> 0 \<and>
           trace reflectRay spheres (vec lx ly lz) (depth + 1) = vec rr rg rb \<longrightarrow>
           trace (Ray (vec ox oy oz) (vec dx dy dz)) spheres (vec lx ly lz) depth =
             vec (br * (1 - 0.5) + rr * 0.5) (bg * (1 - 0.5) + rg * 0.5) (bb * (1 - 0.5) + rb * 0.5)"
    unfolding Let_def
    apply (intro impI)
    apply (elim conjE)
    apply (rule composite [OF refl refl refl refl _ refl refl refl refl _ refl refl refl
          refl refl refl refl refl refl refl refl refl _ refl])
       apply assumption+
    done
qed

theorem reflection_composite_witness:
  "\<not> 2 < (1::int) \<and>
   nearest_loop (Ray (vec 0 0 0) (vec 0 0 (- 1))) [Sphere (vec 3 0 (- 10)) (Fin 5) (vec 1 0.5 0),
      Sphere (vec (- 0.0006) 3 (- 1.9992)) (Fin 1) (vec 0 0 1)] 0 (Fin 1000000000, None) = (Fin 6, Some 0) \<and>
   [Sphere (vec 3 0 (- 10)) (Fin 5) (vec 1 0.5 0),
      Sphere (vec (- 0.0006) 3 (- 1.9992)) (Fin 1) (vec 0 0 1)] ! 0 = Sphere (vec 3 0 (- 10)) (Fin 5) (vec 1 0.5 0) \<and>
   sqrt ((0 + 0 * 6 - 3) * (0 + 0 * 6 - 3) + (0 + 0 * 6 - 0) * (0 + 0 * 6 - 0)
         + (0 + (- 1) * 6 - (- 10)) * (0 + (- 1) * 6 - (- 10))) = (5::real) \<and>
   trace (Ray (vec (- 0.0006) 0 (- 5.9992)) (vec (- 0.96) 0 0.28)) [Sphere (vec 3 0 (- 10)) (Fin 5) (vec 1 0.5 0),
      Sphere (vec (- 0.0006) 3 (- 1.9992)) (Fin 1) (vec 0 0 1)] (vec 0 3 (- 2)) (1 + 1)
     = vec 0.1 0.1 0.1 \<and>
   trace (Ray (vec 0 0 0) (vec 0 0 (- 1))) [Sphere (vec 3 0 (- 10)) (Fin 5) (vec 1 0.5 0),
      Sphere (vec (- 0.0006) 3 (- 1.9992)) (Fin 1) (vec 0 0 1)] (vec 0 3 (- 2)) 1 =
     vec (1 * 0.64 * 0.2 * (1 - 0.5) + 0.1 * 0.5) (0.5 * 0.64 * 0.2 * (1 - 0.5) + 0.1 * 0.5)
         (0 * 0.64 * 0.2 * (1 - 0.5) + 0.1 * 0.5) \<and>
   trace (Ray (vec 0 0 0) (vec 0 0 (- 1))) [Sphere (vec 3 0 (- 10)) (Fin 5) (vec 1 0.5 0),
      Sphere (vec (- 0.0006) 3 (- 1.9992)) (Fin 1) (vec 0 0 1)] (vec 0 3 (- 2)) 1 = vec 0.114 0.082 0.05"
proof -
  have d: "\<not> 2 < (1::int)" by simp
  have s0: "[Sphere (vec 3 0 (- 10)) (Fin 5) (vec 1 0.5 0),
      Sphere (vec (- 0.0006) 3 (- 1.9992)) (Fin 1) (vec 0 0 1)] ! 0 = Sphere (vec 3 0 (- 10)) (Fin 5) (vec 1 0.5 0)" by simp
  have m: "sqrt ((0 + 0 * 6 - 3) * (0 + 0 * 6 - 3) + (0 + 0 * 6 - 0) * (0 + 0 * 6 - 0)
         + (0 + (- 1) * 6 - (- 10)) * (0 + (- 1) * 6 - (- 10))) = (5::real)"
    by (simp add: sqrt_25)
  have r: "trace (Ray (vec (- 0.0006) 0 (- 5.9992)) (vec (- 0.96) 0 0.28)) [Sphere (vec 3 0 (- 10)) (Fin 5) (vec 1 0.5 0),
      Sphere (vec (- 0.0006) 3 (- 1.9992)) (Fin 1) (vec 0 0 1)] (vec 0 3 (- 2)) (1 + 1)
     = vec 0.1 0.1 0.1"
    by (rule nearest_loop_None [OF ex2_reflect_miss])
  from reflection_composite [where depth = 1 and ox = 0 and oy = 0 and oz = 0
      and dx = 0 and dy = 0 and dz = "- 1" and t = 6 and h = 0 and cx = 3 and cy = 0 and cz = "- 10"
      and rad = "Fin 5" and cr = 1 and cg = "0.5" and cb = 0 and lx = 0 and ly = 3 and lz = "- 2"
      and rr = "0.1" and rg = "0.1" and rb = "0.1"
      and spheres = "[Sphere (vec 3 0 (- 10)) (Fin 5) (vec 1 0.5 0),
      Sphere (vec (- 0.0006) 3 (- 1.9992)) (Fin 1) (vec 0 0 1)]", THEN conjunct2, unfolded Let_def] ex2_nearest ex2_in_shadow r
  have eq: "trace (Ray (vec 0 0 0) (vec 0 0 (- 1))) [Sphere (vec 3 0 (- 10)) (Fin 5) (vec 1 0.5 0),
      Sphere (vec (- 0.0006) 3 (- 1.9992)) (Fin 1) (vec 0 0 1)] (vec 0 3 (- 2)) 1 =
     vec (1 * 0.64 * 0.2 * (1 - 0.5) + 0.1 * 0.5) (0.5 * 0.64 * 0.2 * (1 - 0.5) + 0.1 * 0.5)
         (0 * 0.64 * 0.2 * (1 - 0.5) + 0.1 * 0.5)"
    by (simp add: sqrt_25 del: nearest_loop.simps)
  have direct: "trace (Ray (vec 0 0 0) (vec 0 0 (- 1))) [Sphere (vec 3 0 (- 10)) (Fin 5) (vec 1 0.5 0),
      Sphere (vec (- 0.0006) 3 (- 1.9992)) (Fin 1) (vec 0 0 1)] (vec 0 3 (- 2)) 1 = vec 0.114 0.082 0.05"
    using r
    by (subst trace_hit [OF d ex2_nearest])
      (simp add: intersect_Fin sqrt_4 sqrt_25 Let_def minus_fl_def std_max_def)
  from d ex2_nearest s0 m r eq direct show ?thesis by (intro conjI)
qed

subsection \<open>The frame loops\<close>

lemma clear_independent:
  "SDL_RenderClear (SDL_SetRenderDrawColor r1 25 25 25 255) =
   SDL_RenderClear (SDL_SetRenderDrawColor r2 25 25 25 255)"
  by (simp add: SDL_RenderClear_def SDL_SetRenderDrawColor_def)

lemma render_frame_independent:
  "render_frame width height spheres lightPos r1 = render_frame width height spheres lightPos r2"
  unfolding render_frame_def clear_independent [of r1 r2] ..

lemma row_loop_pixels:
  "row_loop width height spheres lightPos y x renderer = Some renderer' \<Longrightarrow>
     (\<forall>x'. x \<le> x' \<and> x' < width \<longrightarrow>
        (\<exists>r g b. pixel_color width height spheres lightPos x' y = Some (r, g, b) \<and>
                 target renderer' (x', y) = (r, g, b, 255))) \<and>
     (\<forall>x' y'. y' \<noteq> y \<or> x' < x \<longrightarrow> target renderer' (x', y') = target renderer (x', y'))"
proof (induction width height spheres lightPos y x renderer rule: row_loop.induct)
  case (1 width height spheres lightPos y x renderer)
  show ?case
  proof (cases "x < width")
    case False
    with "1.prems" have "renderer' = renderer" by (subst (asm) row_loop.simps) simp
    with False show ?thesis by auto
  next
    case True
    with "1.prems" obtain r g b where
      px: "pixel_color width height spheres lightPos x y = Some (r, g, b)"
      and rest: "row_loop width height spheres lightPos y (x + 1)
                   (SDL_RenderDrawPoint (SDL_SetRenderDrawColor renderer r g b 255) x y) = Some renderer'"
      by (subst (asm) row_loop.simps) (auto split: option.splits)
    note IH = "1.IH" [OF True px refl refl rest]
    have here: "target renderer' (x, y) = (r, g, b, 255)"
    proof -
      from IH have "target renderer' (x, y) =
        target (SDL_RenderDrawPoint (SDL_SetRenderDrawColor renderer r g b 255) x y) (x, y)"
        by simp
      then show ?thesis by (simp add: SDL_RenderDrawPoint_def SDL_SetRenderDrawColor_def)
    qed
    have inside: "\<exists>r g b. pixel_color width height spheres lightPos x' y = Some (r, g, b) \<and>
                 target renderer' (x', y) = (r, g, b, 255)" if "x \<le> x'" "x' < width" for x'
    proof (cases "x' = x")
      case True
      with px here show ?thesis by simp
    next
      case False
      with that have "x + 1 \<le> x'" by simp
      with IH that(2) show ?thesis by blast
    qed
    have outside: "target renderer' (x', y') = target renderer (x', y')" if "y' \<noteq> y \<or> x' < x" for x' y'
    proof -
      from that have "y' \<noteq> y \<or> x' < x + 1" by auto
      with IH have "target renderer' (x', y') =
        target (SDL_RenderDrawPoint (SDL_SetRenderDrawColor renderer r g b 255) x y) (x', y')"
        by blast
      also have "\<dots> = target renderer (x', y')"
        using that by (auto simp: SDL_RenderDrawPoint_def SDL_SetRenderDrawColor_def)
      finally show ?thesis .
    qed
    from inside outside show ?thesis by blast
  qed
qed

lemma frame_loop_pixels:
  "frame_loop width height spheres lightPos y renderer = Some renderer' \<Longrightarrow>
     (\<forall>x' y'. 0 \<le> x' \<and> x' < width \<and> y \<le> y' \<and> y' < height \<longrightarrow>
        (\<exists>r g b. pixel_color width height spheres lightPos x' y' = Some (r, g, b) \<and>
                 target renderer' (x', y') = (r, g, b, 255))) \<and>
     (\<forall>x' y'. y' < y \<or> x' < 0 \<longrightarrow> target renderer' (x', y') = target renderer (x', y'))"
proof (induction width height spheres lightPos y renderer rule: frame_loop.induct)
  case (1 width height spheres lightPos y renderer)
  show ?case
  proof (cases "y < height")
    case False
    with "1.prems" have "renderer' = renderer" by (subst (asm) frame_loop.simps) simp
    with False show ?thesis by auto
  next
    case True
    with "1.prems" obtain mid where
      row: "row_loop width height spheres lightPos y 0 renderer = Some mid"
      and rest: "frame_loop width height spheres lightPos (y + 1) mid = Some renderer'"
      by (subst (asm) frame_loop.simps) (auto split: option.splits)
    note IH = "1.IH" [OF True row rest]
    note R = row_loop_pixels [OF row]
    have inside: "\<exists>r g b. pixel_color width height spheres lightPos x' y' = Some (r, g, b) \<and>
                 target renderer' (x', y') = (r, g, b, 255)"
      if "0 \<le> x'" "x' < width" "y \<le> y'" "y' < height" for x' y'
    proof (cases "y' = y")
      case True
      from R that(1,2) obtain r g b where
        "pixel_color width height spheres lightPos x' y = Some (r, g, b)"
        "target mid (x', y) = (r, g, b, 255)" by blast
      moreover from IH have "target renderer' (x', y) = target mid (x', y)" by simp
      ultimately show ?thesis using True by simp
    next
      case False
      with that have "y + 1 \<le> y'" by simp
      with IH that show ?thesis by blast
    qed
    have outside: "target renderer' (x', y') = target renderer (x', y')" if "y' < y \<or> x' < 0" for x' y'
    proof -
      from that have "y' < y + 1 \<or> x' < 0" by auto
      with IH have "target renderer' (x', y') = target mid (x', y')" by blast
      also from R that have "\<dots> = target renderer (x', y')" by auto
      finally show ?thesis .
    qed
    from inside outside show ?thesis by blast
  qed
qed

subsection \<open>A frame of one pixel\<close>

lemma ex1_trace:
  "trace (Ray (vec 0 0 0) (vec 0 0 (- 1))) [Sphere (vec 0 0 (-10)) (Fin 1) (vec 1 0 0)] (vec 0 0 20) 0
   = vec 0.55 0.05 0.05"
  by (subst trace.simps, subst trace.simps)
     (simp add: intersect_Fin sqrt_4 sqrt_841 Let_def minus_fl_def std_max_def)

lemma ex1_camera: "camera_ray 1 1 0 0 = Ray (vec 0 0 0) (vec 0 0 (- 1))"
  by (simp add: camera_ray_Fin)

lemma ex1_pixel:
  "pixel_color 1 1 [Sphere (vec 0 0 (-10)) (Fin 1) (vec 1 0 0)] (vec 0 0 20) 0 0 = Some (140, 12, 12)"
  by (simp add: pixel_color_def ex1_camera ex1_trace to_Uint8_def std_min_def)

lemma ex1_frame:
  "render_frame 1 1 [Sphere (vec 0 0 (-10)) (Fin 1) (vec 1 0 0)] (vec 0 0 20)
     \<lparr>draw_color = (0, 0, 0, 0), target = (\<lambda>p. (0, 0, 0, 0))\<rparr> =
   Some \<lparr>draw_color = (140, 12, 12, 255),
         target = (\<lambda>p. (25, 25, 25, 255))((0, 0) := (140, 12, 12, 255))\<rparr>"
  by (simp add: render_frame_def frame_loop.simps row_loop.simps ex1_pixel
        SDL_RenderClear_def SDL_SetRenderDrawColor_def SDL_RenderDrawPoint_def)

subsection \<open>The pixel pipeline and determinism of a frame\<close>

text \<open>
  C7.  For a pixel \<open>(x, y)\<close> of a \<open>width \<times> height\<close> frame the camera ray starts at the
  world origin with direction \<open>normalize(u, v, -1)\<close>, where
  \<open>u = (2 (x + 0.5) / width - 1) (width / height)\<close> and \<open>v = 1 - 2 (y + 0.5) / height\<close>
  are real numbers and the direction is the real vector \<open>(u, v, -1) / sqrt (u\<^sup>2 + v\<^sup>2 + 1)\<close>.
  When \<open>trace\<close> at depth 0 returns real components, none of them negative, the colour
  handed to the pixel sink is, per channel, \<open>floor (min c 1 \<sqdot> 255)\<close>, a value in
  \<open>0..255\<close>: a clamp from above only.
\<close>

theorem pixel_color_pipeline:
  assumes "0 \<le> x" and "x < width" and "0 \<le> y" and "y < height"
  shows "(let u = (2 * (real_of_int x + 0.5) / real_of_int width - 1)
                    * (real_of_int width / real_of_int height);
              v = 1 - 2 * (real_of_int y + 0.5) / real_of_int height;
              m = sqrt (u * u + v * v + 1);
              ray = Ray (vec 0 0 0) (normalize_Vec3 (vec u v (- 1)))
          in camera_ray width height x y = ray \<and>
             direction ray = vec (u / m) (v / m) (- 1 / m) \<and>
             (\<forall>r g b. trace ray spheres lightPos 0 = vec r g b \<and> 0 \<le> r \<and> 0 \<le> g \<and> 0 \<le> b \<longrightarrow>
                pixel_color width height spheres lightPos x y =
                  Some (word_of_int \<lfloor>min r 1 * 255\<rfloor>, word_of_int \<lfloor>min g 1 * 255\<rfloor>,
                        word_of_int \<lfloor>min b 1 * 255\<rfloor>) \<and>
                0 \<le> \<lfloor>min r 1 * 255\<rfloor> \<and> \<lfloor>min r 1 * 255\<rfloor> \<le> 255 \<and>
                0 \<le> \<lfloor>min g 1 * 255\<rfloor> \<and> \<lfloor>min g 1 * 255\<rfloor> \<le> 255 \<and>
                0 \<le> \<lfloor>min b 1 * 255\<rfloor> \<and> \<lfloor>min b 1 * 255\<rfloor> \<le> 255))"
proof -
  define u where "u = (2 * (real_of_int x + 0.5) / real_of_int width - 1)
                    * (real_of_int width / real_of_int height)"
  define v where "v = 1 - 2 * (real_of_int y + 0.5) / real_of_int height"
  define ray where "ray = Ray (vec 0 0 0) (normalize_Vec3 (vec u v (- 1)))"
  from assms have wh: "width \<noteq> 0" "height \<noteq> 0" by auto
  have cam: "camera_ray width height x y = ray"
    unfolding ray_def u_def v_def using camera_ray_Fin [OF wh, of x y] by (simp only: Let_def)
  have "0 \<le> u * u + v * v" by (simp add: add_nonneg_nonneg)
  then have "0 < u * u + v * v + 1" by linarith
  then have nz: "u * u + v * v + (- 1) * (- 1) \<noteq> 0" by simp
  have dir: "direction ray = vec (u / sqrt (u * u + v * v + 1)) (v / sqrt (u * u + v * v + 1))
               (- 1 / sqrt (u * u + v * v + 1))"
    unfolding ray_def using normalize_Fin [OF nz] by simp
  have px: "pixel_color width height spheres lightPos x y =
                  Some (word_of_int \<lfloor>min r 1 * 255\<rfloor>, word_of_int \<lfloor>min g 1 * 255\<rfloor>,
                        word_of_int \<lfloor>min b 1 * 255\<rfloor>)"
    if "trace ray spheres lightPos 0 = vec r g b" "0 \<le> r" "0 \<le> g" "0 \<le> b" for r g b
    unfolding pixel_color_def cam that(1)
    by (simp add: to_Uint8_floor that(2-4))
  show ?thesis
    unfolding Let_def u_def [symmetric] v_def [symmetric] ray_def [symmetric]
    using cam dir px floor_channel_range by blast
qed

theorem pixel_color_pipeline_witness:
  "(0::int) \<le> 0 \<and> (0::int) < 1 \<and>
   camera_ray 1 1 0 0 = Ray (vec 0 0 0) (vec 0 0 (- 1)) \<and>
   trace (Ray (vec 0 0 0) (vec 0 0 (- 1))) [Sphere (vec 0 0 (-10)) (Fin 1) (vec 1 0 0)] (vec 0 0 20) 0
     = vec 0.55 0.05 0.05 \<and>
   (0::real) \<le> 0.55 \<and> (0::real) \<le> 0.05 \<and>
   pixel_color 1 1 [Sphere (vec 0 0 (-10)) (Fin 1) (vec 1 0 0)] (vec 0 0 20) 0 0 =
     Some (word_of_int \<lfloor>min 0.55 1 * 255 :: real\<rfloor>, word_of_int \<lfloor>min 0.05 1 * 255 :: real\<rfloor>,
           word_of_int \<lfloor>min 0.05 1 * 255 :: real\<rfloor>) \<and>
   \<lfloor>min 0.55 1 * 255 :: real\<rfloor> = 140 \<and> \<lfloor>min 0.05 1 * 255 :: real\<rfloor> = 12"
proof -
  have a: "(0::int) \<le> 0" "(0::int) < 1" by simp_all
  note T = pixel_color_pipeline [OF a a, of "[Sphere (vec 0 0 (-10)) (Fin 1) (vec 1 0 0)]" "vec 0 0 20",
      unfolded Let_def]
  from T have cam: "camera_ray 1 1 0 0 = Ray (vec 0 0 0) (vec 0 0 (- 1))" by simp
  from T have T': "\<forall>r g b.
      trace (Ray (vec 0 0 0) (vec 0 0 (- 1))) [Sphere (vec 0 0 (-10)) (Fin 1) (vec 1 0 0)] (vec 0 0 20) 0
        = vec r g b \<and> 0 \<le> r \<and> 0 \<le> g \<and> 0 \<le> b \<longrightarrow>
      pixel_color 1 1 [Sphere (vec 0 0 (-10)) (Fin 1) (vec 1 0 0)] (vec 0 0 20) 0 0 =
        Some (word_of_int \<lfloor>min r 1 * 255\<rfloor>, word_of_int \<lfloor>min g 1 * 255\<rfloor>,
              word_of_int \<lfloor>min b 1 * 255\<rfloor>)"
    by simp
  from T' [rule_format, of "0.55" "0.05" "0.05"] ex1_trace
  have "pixel_color 1 1 [Sphere (vec 0 0 (-10)) (Fin 1) (vec 1 0 0)] (vec 0 0 20) 0 0 =
     Some (word_of_int \<lfloor>min 0.55 1 * 255 :: real\<rfloor>, word_of_int \<lfloor>min 0.05 1 * 255 :: real\<rfloor>,
           word_of_int \<lfloor>min 0.05 1 * 255 :: real\<rfloor>)"
    by simp
  with cam ex1_trace show ?thesis by simp
qed

text \<open>
  C8.  One frame is a function of the dimensions, the scene and the light position
  alone: the renderer state a frame ends in does not depend on the state it starts from,
  so rendering a second frame from the state the first one left gives the same state;
  and in that state every pixel \<open>(x, y)\<close> of the frame holds the colour \<open>pixel_color\<close>
  computes for it.
\<close>

theorem render_frame_deterministic:
  "render_frame width height spheres lightPos r1 = render_frame width height spheres lightPos r2 \<and>
   Option.bind (render_frame width height spheres lightPos r1) (render_frame width height spheres lightPos)
     = render_frame width height spheres lightPos r1 \<and>
   (\<forall>out x y. render_frame width height spheres lightPos r1 = Some out \<and>
        0 \<le> x \<and> x < width \<and> 0 \<le> y \<and> y < height \<longrightarrow>
      (\<exists>r g b. pixel_color width height spheres lightPos x y = Some (r, g, b) \<and>
               target out (x, y) = (r, g, b, 255)))"
proof (intro conjI allI impI)
  show "render_frame width height spheres lightPos r1 = render_frame width height spheres lightPos r2"
    by (rule render_frame_independent)
next
  show "Option.bind (render_frame width height spheres lightPos r1) (render_frame width height spheres lightPos)
     = render_frame width height spheres lightPos r1"
  proof (cases "render_frame width height spheres lightPos r1")
    case None
    then show ?thesis by simp
  next
    case (Some out)
    then show ?thesis using render_frame_independent [of width height spheres lightPos out r1]
      by simp
  qed
next
  fix out x y
  assume a: "render_frame width height spheres lightPos r1 = Some out \<and>
        0 \<le> x \<and> x < width \<and> 0 \<le> y \<and> y < height"
  then have "frame_loop width height spheres lightPos 0
       (SDL_RenderClear (SDL_SetRenderDrawColor r1 25 25 25 255)) = Some out"
    by (simp add: render_frame_def)
  from frame_loop_pixels [OF this] a
  show "\<exists>r g b. pixel_color width height spheres lightPos x y = Some (r, g, b) \<and>
               target out (x, y) = (r, g, b, 255)"
    by blast
qed

theorem render_frame_deterministic_witness:
  "render_frame 1 1 [Sphere (vec 0 0 (-10)) (Fin 1) (vec 1 0 0)] (vec 0 0 20)
     \<lparr>draw_color = (0, 0, 0, 0), target = (\<lambda>p. (0, 0, 0, 0))\<rparr> =
   Some \<lparr>draw_color = (140, 12, 12, 255),
         target = (\<lambda>p. (25, 25, 25, 255))((0, 0) := (140, 12, 12, 255))\<rparr> \<and>
   render_frame 1 1 [Sphere (vec 0 0 (-10)) (Fin 1) (vec 1 0 0)] (vec 0 0 20)
     \<lparr>draw_color = (140, 12, 12, 255),
         target = (\<lambda>p. (25, 25, 25, 255))((0, 0) := (140, 12, 12, 255))\<rparr> =
   Some \<lparr>draw_color = (140, 12, 12, 255),
         target = (\<lambda>p. (25, 25, 25, 255))((0, 0) := (140, 12, 12, 255))\<rparr> \<and>
   (0::int) \<le> 0 \<and> (0::int) < 1 \<and>
   pixel_color 1 1 [Sphere (vec 0 0 (-10)) (Fin 1) (vec 1 0 0)] (vec 0 0 20) 0 0 = Some (140, 12, 12)"
  using render_frame_deterministic [of 1 1 "[Sphere (vec 0 0 (-10)) (Fin 1) (vec 1 0 0)]" "vec 0 0 20"
      "\<lparr>draw_color = (140, 12, 12, 255),
         target = (\<lambda>p. (25, 25, 25, 255))((0, 0) := (140, 12, 12, 255))\<rparr>"
      "\<lparr>draw_color = (0, 0, 0, 0), target = (\<lambda>p. (0, 0, 0, 0))\<rparr>"]
    ex1_frame ex1_pixel
  by simp

end
